theory Spec2Isabelle
  imports Complex_Main
begin

section \<open>Sentiment conversion\<close>

text \<open>
  The workflow (\<^verbatim>\<open>crypto-workflow.ts\<close>, lines 8-28) and the sentiment tool
  (\<^verbatim>\<open>getSentimentScore\<close>, lines 20-40) each carry their own copy of
  \<^verbatim>\<open>getFearGreedClassification\<close> and \<^verbatim>\<open>convertToSentiment\<close>. Both copies are
  embedded, the tool's with the prefix \<open>tool_\<close>. A JavaScript \<^verbatim>\<open>number\<close> that
  reaches these functions is finite (it comes out of a JSON body and passes a range
  check, or is a small integer), so it is modelled as a \<^typ>\<open>real\<close>; rounding of
  the one division to binary64 is not modelled.
\<close>

datatype sentiment = bullish | bearish | neutral

record sentiment_score =
  ss_sentiment :: sentiment
  ss_score :: real

definition getFearGreedClassification :: "real \<Rightarrow> string" where
  "getFearGreedClassification v =
     (if v \<ge> 75 then ''Extreme Greed''
      else if v \<ge> 55 then ''Greed''
      else if v \<ge> 45 then ''Neutral''
      else if v \<ge> 25 then ''Fear''
      else ''Extreme Fear'')"

definition convertToSentiment :: "real \<Rightarrow> sentiment_score" where
  "convertToSentiment v =
     (let score = (v - 50) / 50;
          s = (if v \<ge> 60 then bullish else if v \<le> 40 then bearish else neutral)
      in \<lparr>ss_sentiment = s, ss_score = max (- 1) (min 1 score)\<rparr>)"

definition tool_getFearGreedClassification :: "real \<Rightarrow> string" where
  "tool_getFearGreedClassification v =
     (if v \<ge> 75 then ''Extreme Greed''
      else if v \<ge> 55 then ''Greed''
      else if v \<ge> 45 then ''Neutral''
      else if v \<ge> 25 then ''Fear''
      else ''Extreme Fear'')"

definition tool_convertToSentiment :: "real \<Rightarrow> sentiment_score" where
  "tool_convertToSentiment v =
     (let score = (v - 50) / 50;
          s = (if v \<ge> 60 then bullish else if v \<le> 40 then bearish else neutral)
      in \<lparr>ss_sentiment = s, ss_score = max (- 1) (min 1 score)\<rparr>)"

section \<open>Strings, numbers and the platform\<close>

text \<open>
  A JavaScript string is modelled as a \<^typ>\<open>string\<close>, a list of 8-bit characters
  standing for code units below 256. \<^verbatim>\<open>trim\<close> and the regular-expression class
  \<^verbatim>\<open>\s\<close> use the white space of that range. \<^verbatim>\<open>toLowerCase\<close> maps the letters
  A-Z and the Latin-1 capitals (codes 192 to 222 without the multiplication sign 215) to
  the letter 32 above. \<^verbatim>\<open>toUpperCase\<close> maps a-z and the Latin-1 small letters (224
  to 254 without the division sign 247) to the letter 32 below, and the sharp s (223) to
  the two letters SS. The micro sign (181) and the y with diaeresis (255) are the only
  characters of the range whose upper case is a code unit above 255: strings that
  contain them lie outside the model where they are upper-cased, and \<open>upperChar\<close>
  leaves them as they are.
\<close>

definition isWhiteSpace :: "char \<Rightarrow> bool" where
  "isWhiteSpace c = (of_char c \<in> {9, 10, 11, 12, 13, 32, 160 :: nat})"

definition isDigit :: "char \<Rightarrow> bool" where
  "isDigit c = (48 \<le> (of_char c :: nat) \<and> (of_char c :: nat) \<le> 57)"

definition trim :: "string \<Rightarrow> string" where
  "trim s = rev (dropWhile isWhiteSpace (rev (dropWhile isWhiteSpace s)))"

definition lowerChar :: "char \<Rightarrow> char" where
  "lowerChar c =
     (if (65 \<le> (of_char c :: nat) \<and> (of_char c :: nat) \<le> 90)
         \<or> (192 \<le> (of_char c :: nat) \<and> (of_char c :: nat) \<le> 222 \<and> (of_char c :: nat) \<noteq> 215)
      then char_of (of_char c + 32 :: nat) else c)"

definition upperChar :: "char \<Rightarrow> string" where
  "upperChar c =
     (if (97 \<le> (of_char c :: nat) \<and> (of_char c :: nat) \<le> 122)
         \<or> (224 \<le> (of_char c :: nat) \<and> (of_char c :: nat) \<le> 254 \<and> (of_char c :: nat) \<noteq> 247)
      then [char_of (of_char c - 32 :: nat)]
      else if (of_char c :: nat) = 223 then ''SS''
      else [c])"

definition toLowerCase :: "string \<Rightarrow> string" where
  "toLowerCase s = map lowerChar s"

definition toUpperCase :: "string \<Rightarrow> string" where
  "toUpperCase s = concat (map upperChar s)"

text \<open>\<^verbatim>\<open>a || b\<close> on strings: the empty string is falsy.\<close>

definition orElse :: "string \<Rightarrow> string \<Rightarrow> string" where
  "orElse a b = (if a = [] then b else a)"

text \<open>\<^verbatim>\<open>a || b\<close> where \<open>a\<close> may be \<^verbatim>\<open>undefined\<close>.\<close>

definition optOrElse :: "string option \<Rightarrow> string \<Rightarrow> string" where
  "optOrElse a b = (case a of None \<Rightarrow> b | Some s \<Rightarrow> orElse s b)"

definition quoted :: "string \<Rightarrow> string" where
  "quoted s = CHR 0x27 # s @ [CHR 0x27]"

definition digitChar :: "nat \<Rightarrow> char" where
  "digitChar d = ''0123456789'' ! d"

fun showNat :: "nat \<Rightarrow> string" where
  "showNat n = (if n < 10 then [digitChar n] else showNat (n div 10) @ [digitChar (n mod 10)])"

text \<open>
  The result of \<^verbatim>\<open>parseFloat\<close>: not-a-number, an infinity, or a finite value.
  \<open>num_le0\<close> is the comparison \<^verbatim>\<open>price <= 0\<close>, which is false on NaN.
\<close>

datatype jsnum = NaN | NegInf | Fin real | PosInf

fun num_le0 :: "jsnum \<Rightarrow> bool" where
  "num_le0 NaN = False"
| "num_le0 NegInf = True"
| "num_le0 (Fin r) = (r \<le> 0)"
| "num_le0 PosInf = False"

fun num_gt0 :: "jsnum \<Rightarrow> bool" where
  "num_gt0 NaN = False"
| "num_gt0 NegInf = False"
| "num_gt0 (Fin r) = (0 < r)"
| "num_gt0 PosInf = True"

fun num_finite :: "jsnum \<Rightarrow> bool" where
  "num_finite (Fin r) = True"
| "num_finite _ = False"

text \<open>
  The built-ins the code calls but does not define are parameters of the model:
  \<^verbatim>\<open>parseFloat\<close>, number-to-string conversion in a template, the protocol of
  \<^verbatim>\<open>new URL(u)\<close> (\<open>None\<close> when the constructor throws), the local
  \<^verbatim>\<open>getFullYear()\<close> of \<^verbatim>\<open>new Date(s)\<close> (\<open>None\<close> when \<^verbatim>\<open>getTime()\<close> is NaN), and
  \<^verbatim>\<open>new Date(ms).toISOString()\<close>.
\<close>

record platform =
  parseFloat :: "string \<Rightarrow> jsnum"
  numToString :: "jsnum \<Rightarrow> string"
  urlProtocol :: "string \<Rightarrow> string option"
  dateFullYear :: "string \<Rightarrow> int option"
  toISOString :: "int \<Rightarrow> string"

text \<open>
  \<^verbatim>\<open>parseFloat\<close> after ECMAScript (leading white space, a sign, \<^verbatim>\<open>Infinity\<close> or a
  decimal literal with optional fraction and exponent, trailing text ignored). The
  magnitude of a decimal literal is rounded to binary64 at the two ends of the range:
  at or above \<open>2^1024 - 2^970\<close> it is infinite, at or below \<open>2^-1075\<close> it is zero.
  Between the two it is given its exact value: rounding to the nearest binary64 there,
  which changes neither the sign nor whether the value is zero or finite, is not
  modelled.
\<close>

definition roundMagnitude :: "bool \<Rightarrow> real \<Rightarrow> jsnum" where
  "roundMagnitude neg v =
     (if v \<ge> 2 ^ 1024 - 2 ^ 970 then (if neg then NegInf else PosInf)
      else if v \<le> 1 / 2 ^ 1075 then Fin 0
      else Fin (if neg then - v else v))"

definition digitsVal :: "string \<Rightarrow> nat" where
  "digitsVal ds = foldl (\<lambda>a c. 10 * a + (of_char c - 48)) 0 ds"

definition exponentPart :: "string \<Rightarrow> int" where
  "exponentPart r =
     (case r of
        [] \<Rightarrow> 0
      | c # r1 \<Rightarrow>
          if c = CHR ''e'' \<or> c = CHR ''E'' then
            (case r1 of
               [] \<Rightarrow> 0
             | d # r2 \<Rightarrow>
                 if d = CHR ''-'' then
                   (if takeWhile isDigit r2 = [] then 0 else - int (digitsVal (takeWhile isDigit r2)))
                 else if d = CHR ''+'' then int (digitsVal (takeWhile isDigit r2))
                 else int (digitsVal (takeWhile isDigit r1)))
          else 0)"

definition ecma_parseFloat :: "string \<Rightarrow> jsnum" where
  "ecma_parseFloat input =
     (let s = dropWhile isWhiteSpace input;
          neg = (s \<noteq> [] \<and> hd s = CHR ''-'');
          s1 = (if s \<noteq> [] \<and> (hd s = CHR ''-'' \<or> hd s = CHR ''+'') then tl s else s)
      in if take 8 s1 = ''Infinity'' then (if neg then NegInf else PosInf)
         else
           let ip = takeWhile isDigit s1;
               r1 = dropWhile isDigit s1;
               hasDot = (r1 \<noteq> [] \<and> hd r1 = CHR ''.'');
               fp = (if hasDot then takeWhile isDigit (tl r1) else []);
               r2 = (if hasDot then dropWhile isDigit (tl r1) else r1)
           in if ip = [] \<and> fp = [] then NaN
              else
                let mant = real (digitsVal (ip @ fp)) / 10 ^ length fp;
                    ex = exponentPart r2;
                    v = (if ex < 0 then mant / 10 ^ nat (- ex) else mant * 10 ^ nat ex)
                in roundMagnitude neg v)"

section \<open>HTTP and the world\<close>

text \<open>
  A thrown value has a \<^verbatim>\<open>name\<close> and a \<^verbatim>\<open>message\<close>; \<^verbatim>\<open>new Error(m)\<close> is
  \<open>Error m\<close>. An awaited \<^verbatim>\<open>fetch\<close> either throws (network failure, or
  \<^verbatim>\<open>AbortError\<close> when the timeout fires) or yields a response with a status, a status
  text and a body whose \<^verbatim>\<open>json()\<close> either throws or yields a value of the shape the
  code declares for it.
\<close>

datatype exn = Exn (exn_name: string) (exn_message: string)

definition Error :: "string \<Rightarrow> exn" where
  "Error m = Exn ''Error'' m"

datatype 'b json = JsonThrew exn | Json 'b

datatype 'b fetched = FetchThrew exn | Response nat string "'b json"

definition ok :: "nat \<Rightarrow> bool" where
  "ok st = (200 \<le> st \<and> st \<le> 299)"

text \<open>The network calls a run issues, in order.\<close>

datatype request =
    RatesGet string string
  | FearGreedGet string
  | NewsGet string real string

section \<open>Data model\<close>

text \<open>
  Response bodies have the shape the code declares for them, with \<open>option\<close> wherever
  the code tests for a missing or falsy part. A body of \<open>None\<close> is a JSON value that
  is \<^verbatim>\<open>null\<close> or not an object.
\<close>

record rates_data =
  rd_id :: "string option"
  rd_symbol :: "string option"
  rateUsd :: "string option"

record rates_body =
  rb_data :: "rates_data option"

record fg_status =
  error_code :: string
  error_message :: "string option"

record fg_point =
  fg_value :: "real option"
  value_classification :: "string option"

record fg_body =
  fg_status :: "fg_status option"
  fg_data :: "fg_point option list option"

text \<open>
  An article as the workflow's news stage declares it; \<open>wa_source\<close> is
  \<^verbatim>\<open>source.name\<close>, and \<open>None\<close> when \<^verbatim>\<open>source\<close> is missing, so that reading the name
  throws.
\<close>

record wf_raw_article =
  wa_title :: string
  wa_description :: "string option"
  wa_url :: string
  wa_publishedAt :: string
  wa_source :: "string option"

text \<open>An article as the news tool declares it: every part optional.\<close>

record raw_article =
  ra_title :: "string option"
  ra_description :: "string option"
  ra_url :: "string option"
  ra_publishedAt :: "string option"
  ra_source :: "string option"

record news_body =
  nb_status :: "string option"
  nb_message :: "string option"
  nb_articles :: "raw_article option list option"

record article =
  title :: string
  description :: string
  url :: string
  publishedAt :: string
  source :: string

text \<open>
  The records the stages pass on. Stage 2 returns \<^verbatim>\<open>{...inputData, ...}\<close>, so its
  output extends the output of stage 1, which in turn begins with the three input fields.
\<close>

record workflow_input =
  crypto_id :: string
  crypto_symbol :: string
  news_limit :: real

record price_out = workflow_input +
  name :: string
  symbol :: string
  priceUsd :: string
  changePercent24Hr :: "string option"
  error :: "string option"

record sentiment_out = price_out +
  sentiment :: sentiment
  score :: real
  fearGreedValue :: real
  classification :: string
  price_error :: "string option"
  sentiment_error :: "string option"

record price_data =
  name :: string
  symbol :: string
  priceUsd :: string
  changePercent24Hr :: "string option"

record price_tool_out = price_data +
  error :: "string option"

record sentiment_data =
  sentiment :: sentiment
  score :: real
  fearGreedValue :: real
  classification :: string

record news_out =
  priceData :: price_data
  sentimentData :: sentiment_data
  articles :: "article list"

record news_tool_out =
  articles :: "article list"
  error :: "string option"
  source :: "string option"

record crypto_info =
  name :: string
  symbol :: string
  price_usd :: string
  change_24h :: "string option"

record sentiment_analysis =
  sentiment :: sentiment
  score :: real
  fear_greed_value :: real
  classification :: string

record latest_news_item =
  title :: string
  description :: string
  url :: string
  published_at :: string
  source :: string

record analysis_report =
  analysis :: string
  crypto_info :: crypto_info
  sentiment_analysis :: sentiment_analysis
  latest_news :: "latest_news_item list"
  timestamp :: string

text \<open>
  The world of one run: the environment variables, one reading of the clock
  (\<^verbatim>\<open>Date.now()\<close>, local \<^verbatim>\<open>getHours()\<close> and \<^verbatim>\<open>getDay()\<close>), what each provider
  answers to a request, and what the language model does with the prompt that the
  compiler builds from its input. The clock is read after 1970, so \<open>now_ms\<close> is a
  natural number; \<open>dayOfWeek\<close> counts from Sunday as 0.
\<close>

record world =
  COINCAP_API_KEY :: "string option"
  COINMARKETCAP_API_KEY :: "string option"
  NEWS_API_KEY :: "string option"
  NEWSAPI_KEY :: "string option"
  now_ms :: nat
  hour :: nat
  dayOfWeek :: nat
  http_rates :: "string \<Rightarrow> string \<Rightarrow> rates_body option fetched"
  http_feargreed :: "string \<Rightarrow> fg_body option fetched"
  http_news_wf :: "string \<Rightarrow> real \<Rightarrow> string \<Rightarrow> wf_raw_article list option fetched"
  http_news :: "string \<Rightarrow> real \<Rightarrow> string \<Rightarrow> news_body option fetched"
  agent_stream :: "news_out \<Rightarrow> exn + string"

text \<open>\<^verbatim>\<open>!apiKey\<close>: an unset variable and the empty string are both falsy.\<close>

definition envKey :: "string option \<Rightarrow> string option" where
  "envKey v = (case v of None \<Rightarrow> None | Some k \<Rightarrow> if k = [] then None else Some k)"

section \<open>Fallback sentiment\<close>

text \<open>
  \<^verbatim>\<open>generateFallbackSentiment\<close> of the workflow (\<^verbatim>\<open>crypto-workflow.ts\<close>, lines 30-55).
  The sum of the character codes, the hour bucket and their remainders are natural
  numbers; \<^verbatim>\<open>Math.abs(combinedHash - 50)\<close> is computed in the integers.
\<close>

record fallback_sentiment =
  fb_sentiment :: sentiment
  fb_score :: real
  fb_fear_greed_value :: int

definition generateFallbackSentiment :: "world \<Rightarrow> string \<Rightarrow> fallback_sentiment" where
  "generateFallbackSentiment w symb =
     (let now = now_ms w;
          h = hour w;
          symbolHash = foldl (\<lambda>acc c. acc + of_char c) (0::nat) symb;
          timeHash = (now div (1000 * 60 * 60)) mod 100;
          combinedHash = (symbolHash + timeHash) mod 100;
          adjustedValue =
            (if h \<ge> 9 \<and> h \<le> 16 then \<bar>int combinedHash - 50\<bar> + 30 else int combinedHash);
          fgv = max 0 (min 100 adjustedValue);
          cs = convertToSentiment (real_of_int fgv)
      in \<lparr>fb_sentiment = ss_sentiment cs, fb_score = ss_score cs, fb_fear_greed_value = fgv\<rparr>)"

text \<open>
  \<^verbatim>\<open>generateFallbackSentiment\<close> of the sentiment tool (\<^verbatim>\<open>getSentimentScore\<close>,
  lines 225-263), which also reads the day of the week.
\<close>

record tool_fallback_sentiment =
  symbol :: string
  sentiment :: sentiment
  score :: real
  confidence :: real
  fear_greed_value :: int
  analysis :: string
  error :: "string option"

definition showSentiment :: "sentiment \<Rightarrow> string" where
  "showSentiment s = (case s of bullish \<Rightarrow> ''bullish'' | bearish \<Rightarrow> ''bearish'' | neutral \<Rightarrow> ''neutral'')"

definition tool_generateFallbackSentiment :: "world \<Rightarrow> string \<Rightarrow> tool_fallback_sentiment" where
  "tool_generateFallbackSentiment w symb =
     (let now = now_ms w;
          h = hour w;
          d = dayOfWeek w;
          symbolHash = foldl (\<lambda>acc c. acc + of_char c) (0::nat) symb;
          timeHash = (now div (1000 * 60 * 60)) mod 100;
          combinedHash = (symbolHash + timeHash) mod 100;
          adjustedValue =
            (if h \<ge> 9 \<and> h \<le> 16 \<and> d \<ge> 1 \<and> d \<le> 5 then \<bar>int combinedHash - 50\<bar> + 30
             else int combinedHash);
          fgv = max 0 (min 100 adjustedValue);
          cs = tool_convertToSentiment (real_of_int fgv);
          cls = tool_getFearGreedClassification (real_of_int fgv)
      in \<lparr>tool_fallback_sentiment.symbol = symb,
          tool_fallback_sentiment.sentiment = ss_sentiment cs,
          tool_fallback_sentiment.score = ss_score cs,
          confidence = 3 / 10,
          fear_greed_value = fgv,
          tool_fallback_sentiment.analysis =
            ''Using fallback sentiment analysis for '' @ symb
              @ ''. Estimated Fear & Greed Index: '' @ showNat (nat fgv) @ ''/100 ('' @ cls
              @ ''). This indicates '' @ showSentiment (ss_sentiment cs)
              @ '' market sentiment. Note: This is a fallback calculation due to API unavailability.'',
          tool_fallback_sentiment.error =
            Some ''Primary sentiment API unavailable, using fallback calculation''\<rparr>)"

section \<open>Stage 1: the price fetcher\<close>

text \<open>
  The three regular expressions of \<^verbatim>\<open>invalidPatterns\<close> as predicates, in the order of
  the workflow: a character of \<^verbatim>\<open>< > { } [ ] \ /\<close>, white space only, digits only.
\<close>

definition invalidPatterns :: "(string \<Rightarrow> bool) list" where
  "invalidPatterns =
     [\<lambda>s. list_ex (\<lambda>c. c \<in> set (''<>{}[]/'' @ [CHR 0x5C])) s,
      \<lambda>s. list_all isWhiteSpace s,
      \<lambda>s. s \<noteq> [] \<and> list_all isDigit s]"

text \<open>
  \<^verbatim>\<open>fetchCryptoPrice\<close>, lines 186-245: what the stage makes of the provider's answer.
  \<open>Inl\<close> is a \<^verbatim>\<open>throw\<close>.
\<close>

definition fetchCryptoPrice_response ::
  "platform \<Rightarrow> workflow_input \<Rightarrow> string \<Rightarrow> string \<Rightarrow> real \<Rightarrow> rates_body option fetched
     \<Rightarrow> exn + price_out" where
  "fetchCryptoPrice_response pf i normalizedId normalizedSymbol validLimit resp =
     (case resp of
        FetchThrew e \<Rightarrow> Inl e
      | Response st txt body \<Rightarrow>
          if \<not> ok st then
            (if st = 404 then
               Inl (Error (''Cryptocurrency '' @ quoted (crypto_id i)
                      @ '' not found. Please verify the cryptocurrency identifier.''))
             else if st = 429 then
               Inl (Error ''Rate limit exceeded. Please try again in a few moments.'')
             else if st \<ge> 500 then
               Inl (Error ''CoinCap API is temporarily unavailable. Please try again later.'')
             else
               Inl (Error (''Failed to fetch crypto data: '' @ showNat st @ '' '' @ txt)))
          else
            (case body of
               JsonThrew e \<Rightarrow> Inl e
             | Json None \<Rightarrow> Inl (Error ''Invalid response format from CoinCap API'')
             | Json (Some d) \<Rightarrow>
                 (case rb_data d of
                    None \<Rightarrow>
                      Inl (Error (''Cryptocurrency '' @ quoted (crypto_id i)
                             @ '' not found in CoinCap database''))
                  | Some dd \<Rightarrow>
                      (case rateUsd dd of
                         None \<Rightarrow>
                           Inl (Error (''Invalid price data received for '' @ quoted (crypto_id i)))
                       | Some r \<Rightarrow>
                           if r = [] \<or> parseFloat pf r = NaN then
                             Inl (Error (''Invalid price data received for '' @ quoted (crypto_id i)))
                           else if num_le0 (parseFloat pf r) then
                             Inl (Error (''Invalid price value for '' @ quoted (crypto_id i) @ '': ''
                                    @ numToString pf (parseFloat pf r)))
                           else
                             Inr \<lparr>crypto_id = normalizedId,
                                  crypto_symbol = normalizedSymbol,
                                  news_limit = validLimit,
                                  price_out.name = optOrElse (rd_id dd) normalizedId,
                                  price_out.symbol = optOrElse (rd_symbol dd) normalizedSymbol,
                                  price_out.priceUsd = r,
                                  price_out.changePercent24Hr = Some ''N/A'',
                                  price_out.error = None\<rparr>))))"

text \<open>
  The body of the \<^verbatim>\<open>try\<close> block (lines 122-245), with the requests it issues.
\<close>

definition fetchCryptoPrice_try ::
  "platform \<Rightarrow> world \<Rightarrow> workflow_input option \<Rightarrow> request list \<times> (exn + price_out)" where
  "fetchCryptoPrice_try pf w inputData =
     (case inputData of
        None \<Rightarrow> ([], Inl (Error ''Input data not found''))
      | Some i \<Rightarrow>
          if crypto_id i = [] \<or> length (trim (crypto_id i)) = 0 then
            ([], Inl (Error ''Invalid cryptocurrency ID provided''))
          else if crypto_symbol i = [] \<or> length (trim (crypto_symbol i)) = 0 then
            ([], Inl (Error ''Invalid cryptocurrency symbol provided''))
          else
            let normalizedId = trim (toLowerCase (crypto_id i));
                normalizedSymbol = trim (toUpperCase (crypto_symbol i));
                validLimit = max 1 (min 20 (if news_limit i = 0 then 3 else news_limit i))
            in if list_ex (\<lambda>pattern. pattern normalizedId) invalidPatterns then
                 ([], Inl (Error (''Invalid cryptocurrency ID format: '' @ quoted (crypto_id i))))
               else
                 (case envKey (COINCAP_API_KEY w) of
                    None \<Rightarrow> ([], Inl (Error ''COINCAP_API_KEY environment variable is required''))
                  | Some apiKey \<Rightarrow>
                      ([RatesGet normalizedId apiKey],
                       fetchCryptoPrice_response pf i normalizedId normalizedSymbol validLimit
                         (http_rates w normalizedId apiKey))))"

text \<open>The \<^verbatim>\<open>catch\<close> block (lines 246-265) turns every throw into a record.\<close>

definition fetchCryptoPrice_execute ::
  "platform \<Rightarrow> world \<Rightarrow> workflow_input option \<Rightarrow> request list \<times> price_out" where
  "fetchCryptoPrice_execute pf w inputData =
     (case fetchCryptoPrice_try pf w inputData of
        (reqs, Inr r) \<Rightarrow> (reqs, r)
      | (reqs, Inl e) \<Rightarrow>
          (reqs,
           \<lparr>crypto_id = (case inputData of None \<Rightarrow> ''unknown'' | Some i \<Rightarrow> orElse (crypto_id i) ''unknown''),
            crypto_symbol =
              (case inputData of None \<Rightarrow> ''UNKNOWN'' | Some i \<Rightarrow> orElse (crypto_symbol i) ''UNKNOWN''),
            news_limit =
              (case inputData of None \<Rightarrow> 3 | Some i \<Rightarrow> if news_limit i = 0 then 3 else news_limit i),
            price_out.name =
              (case inputData of None \<Rightarrow> ''unknown'' | Some i \<Rightarrow> orElse (crypto_id i) ''unknown''),
            price_out.symbol =
              (case inputData of None \<Rightarrow> ''UNKNOWN'' | Some i \<Rightarrow> orElse (crypto_symbol i) ''UNKNOWN''),
            price_out.priceUsd = ''0'',
            price_out.changePercent24Hr = Some ''N/A'',
            price_out.error = Some (exn_message e)\<rparr>))"

section \<open>The price tool\<close>

text \<open>\<^verbatim>\<open>getPrice\<close> (\<^verbatim>\<open>getCryptoPrice\<close>, lines 118-168): the \<^verbatim>\<open>try\<close> block.\<close>

definition getPrice_response ::
  "platform \<Rightarrow> string \<Rightarrow> rates_body option fetched \<Rightarrow> exn + price_tool_out" where
  "getPrice_response pf cid resp =
     (case resp of
        FetchThrew e \<Rightarrow> Inl e
      | Response st txt body \<Rightarrow>
          if \<not> ok st then
            (if st = 404 then
               Inl (Error (''Cryptocurrency '' @ quoted cid
                      @ '' not found. Please check the spelling and try again.''))
             else if st = 429 then
               Inl (Error ''Rate limit exceeded. Please try again in a few moments.'')
             else if st \<ge> 500 then
               Inl (Error ''CoinCap API is temporarily unavailable. Please try again later.'')
             else
               Inl (Error (''Failed to fetch crypto data for '' @ cid @ '': '' @ showNat st
                      @ '' '' @ txt)))
          else
            (case body of
               JsonThrew e \<Rightarrow> Inl e
             | Json None \<Rightarrow> Inl (Error ''Invalid response format from CoinCap API'')
             | Json (Some d) \<Rightarrow>
                 (case rb_data d of
                    None \<Rightarrow>
                      Inl (Error (''Cryptocurrency '' @ quoted cid @ '' not found in CoinCap database''))
                  | Some dd \<Rightarrow>
                      (case rateUsd dd of
                         None \<Rightarrow> Inl (Error (''Invalid price data received for '' @ quoted cid))
                       | Some r \<Rightarrow>
                           if r = [] \<or> parseFloat pf r = NaN then
                             Inl (Error (''Invalid price data received for '' @ quoted cid))
                           else if num_le0 (parseFloat pf r) then
                             Inl (Error (''Invalid price value for '' @ quoted cid @ '': ''
                                    @ numToString pf (parseFloat pf r)))
                           else
                             Inr \<lparr>price_data.name = optOrElse (rd_id dd) cid,
                                  price_data.symbol = optOrElse (rd_symbol dd) (toUpperCase cid),
                                  price_data.priceUsd = r,
                                  price_data.changePercent24Hr = Some ''N/A'',
                                  price_tool_out.error = None\<rparr>))))"

text \<open>
  \<^verbatim>\<open>getPrice\<close>, lines 70-180. Its \<^verbatim>\<open>catch\<close> rewrites an \<^verbatim>\<open>AbortError\<close> and throws
  every other error again.
\<close>

definition getPrice :: "platform \<Rightarrow> world \<Rightarrow> string \<Rightarrow> request list \<times> (exn + price_tool_out)" where
  "getPrice pf w cid =
     (if cid = [] then ([], Inl (Error ''Invalid cryptocurrency ID provided''))
      else
        let normalizedId = trim (toLowerCase cid)
        in if normalizedId = [] then ([], Inl (Error ''Cryptocurrency ID cannot be empty''))
           else if list_ex (\<lambda>pattern. pattern normalizedId) invalidPatterns then
             ([], Inl (Error (''Invalid cryptocurrency ID format: '' @ quoted cid)))
           else
             (case envKey (COINCAP_API_KEY w) of
                None \<Rightarrow> ([], Inl (Error ''COINCAP_API_KEY environment variable is required''))
              | Some apiKey \<Rightarrow>
                  ([RatesGet normalizedId apiKey],
                   (case getPrice_response pf cid (http_rates w normalizedId apiKey) of
                      Inr r \<Rightarrow> Inr r
                    | Inl e \<Rightarrow>
                        if exn_name e = ''AbortError'' then
                          Inl (Error (''Request timeout while fetching data for '' @ quoted cid
                                 @ ''. Please try again.''))
                        else Inl e))))"

text \<open>The tool's \<^verbatim>\<open>execute\<close> (lines 40-67).\<close>

definition getCryptoPrice_execute ::
  "platform \<Rightarrow> world \<Rightarrow> string \<Rightarrow> request list \<times> price_tool_out" where
  "getCryptoPrice_execute pf w context_crypto_id =
     (let normalizedId = trim (toLowerCase context_crypto_id);
          attempt =
            (if normalizedId = [] then
               ([], Inl (Error ''Cryptocurrency ID cannot be empty or whitespace only''))
             else getPrice pf w normalizedId)
      in case attempt of
           (reqs, Inr r) \<Rightarrow> (reqs, r)
         | (reqs, Inl e) \<Rightarrow>
             (reqs,
              \<lparr>price_data.name = context_crypto_id,
               price_data.symbol = ''UNKNOWN'',
               price_data.priceUsd = ''0'',
               price_data.changePercent24Hr = Some ''N/A'',
               price_tool_out.error = Some (exn_message e)\<rparr>))"

section \<open>Stage 2: the sentiment fetcher\<close>

text \<open>
  \<^verbatim>\<open>fetchSentimentScore\<close>, lines 355-412: what the stage makes of the provider's
  answer. The stage is handed the record stage 1 returned, so \<^verbatim>\<open>inputData\<close> is
  present here.
\<close>

definition fetchSentimentScore_response ::
  "platform \<Rightarrow> price_out \<Rightarrow> fg_body option fetched \<Rightarrow> exn + sentiment_out" where
  "fetchSentimentScore_response pf i resp =
     (case resp of
        FetchThrew e \<Rightarrow> Inl e
      | Response st txt body \<Rightarrow>
          if \<not> ok st then
            Inl (Error
              (if st = 401 then ''Invalid CoinMarketCap API key''
               else if st = 429 then ''CoinMarketCap API rate limit exceeded''
               else if st \<ge> 500 then ''CoinMarketCap API temporarily unavailable''
               else ''CoinMarketCap API error: '' @ showNat st))
          else
            (case body of
               JsonThrew e \<Rightarrow> Inl e
             | Json None \<Rightarrow> Inl (Error ''Invalid response format from CoinMarketCap API'')
             | Json (Some d) \<Rightarrow>
                 (case fg_status d of
                    None \<Rightarrow> Inl (Error ''Invalid response format from CoinMarketCap API'')
                  | Some stt \<Rightarrow>
                      if error_code stt \<noteq> ''0'' then
                        Inl (Error (''API Error: ''
                               @ optOrElse (error_message stt) ''Unknown CoinMarketCap error''))
                      else
                        (case fg_data d of
                           None \<Rightarrow> Inl (Error ''No Fear & Greed data available'')
                         | Some [] \<Rightarrow> Inl (Error ''No Fear & Greed data available'')
                         | Some (latestData # rest) \<Rightarrow>
                             (case latestData of
                                None \<Rightarrow> Inl (Error ''Invalid Fear & Greed data format'')
                              | Some ld \<Rightarrow>
                                  (case fg_value ld of
                                     None \<Rightarrow> Inl (Error ''Invalid Fear & Greed data format'')
                                   | Some v \<Rightarrow>
                                       if v < 0 \<or> v > 100 then
                                         Inl (Error (''Invalid Fear & Greed value: ''
                                                @ numToString pf (Fin v)))
                                       else
                                         Inr (price_out.extend i
                                           (sentiment_out.fields
                                              (ss_sentiment (convertToSentiment v))
                                              (ss_score (convertToSentiment v))
                                              v
                                              (optOrElse (value_classification ld)
                                                 (getFearGreedClassification v))
                                              (price_out.error i)
                                              None))))))))"

text \<open>
  The \<^verbatim>\<open>try\<close> block (lines 299-412). A missing credential returns a fixed neutral
  record at once (lines 321-335).
\<close>

definition fetchSentimentScore_try ::
  "platform \<Rightarrow> world \<Rightarrow> price_out \<Rightarrow> request list \<times> (exn + sentiment_out)" where
  "fetchSentimentScore_try pf w i =
     (if crypto_symbol i = [] then
        ([], Inl (Error ''Invalid cryptocurrency symbol for sentiment analysis''))
      else
        (case envKey (COINMARKETCAP_API_KEY w) of
           None \<Rightarrow>
             ([], Inr (price_out.extend i
                    (sentiment_out.fields neutral 0 50 ''Neutral (API Unavailable)''
                       (price_out.error i)
                       (Some ''API key not configured, using fallback sentiment''))))
         | Some apiKey \<Rightarrow>
             ([FearGreedGet apiKey], fetchSentimentScore_response pf i (http_feargreed w apiKey))))"

text \<open>
  The \<^verbatim>\<open>catch\<close> block (lines 413-433). \<^verbatim>\<open>fear_greed_value || 50\<close> replaces a value
  of 0 by 50.
\<close>

definition fetchSentimentScore_execute ::
  "platform \<Rightarrow> world \<Rightarrow> price_out \<Rightarrow> request list \<times> sentiment_out" where
  "fetchSentimentScore_execute pf w i =
     (case fetchSentimentScore_try pf w i of
        (reqs, Inr r) \<Rightarrow> (reqs, r)
      | (reqs, Inl e) \<Rightarrow>
          (let fallbackSentiment = generateFallbackSentiment w (orElse (crypto_symbol i) ''UNKNOWN'')
           in (reqs,
               price_out.extend i
                 (sentiment_out.fields
                    (fb_sentiment fallbackSentiment)
                    (fb_score fallbackSentiment)
                    (if fb_fear_greed_value fallbackSentiment = 0 then 50
                     else real_of_int (fb_fear_greed_value fallbackSentiment))
                    ''Neutral (Fallback)''
                    (price_out.error i)
                    (Some (exn_message e))))))"

section \<open>Stage 3: the news fetcher of the workflow\<close>

text \<open>
  \<^verbatim>\<open>fetchCryptoNews\<close>, lines 479-543. A missing input throws outside any
  \<^verbatim>\<open>try\<close>. Inside, \<^verbatim>\<open>data.articles.map\<close> throws when the body has no article
  array or an article has no \<^verbatim>\<open>source\<close>; the \<^verbatim>\<open>catch\<close> then leaves the list empty.
\<close>

definition fetchCryptoNews_articles :: "wf_raw_article list option fetched \<Rightarrow> article list" where
  "fetchCryptoNews_articles resp =
     (case resp of
        FetchThrew e \<Rightarrow> []
      | Response st txt body \<Rightarrow>
          if ok st then
            (case body of
               JsonThrew e \<Rightarrow> []
             | Json None \<Rightarrow> []
             | Json (Some arts) \<Rightarrow>
                 if list_ex (\<lambda>a. wa_source a = None) arts then []
                 else
                   map (\<lambda>a. \<lparr>article.title = wa_title a,
                             article.description = optOrElse (wa_description a) [],
                             article.url = wa_url a,
                             article.publishedAt = wa_publishedAt a,
                             article.source = the (wa_source a)\<rparr>) arts)
          else [])"

definition fetchCryptoNews_execute ::
  "world \<Rightarrow> sentiment_out option \<Rightarrow> request list \<times> (exn + news_out)" where
  "fetchCryptoNews_execute w inputData =
     (case inputData of
        None \<Rightarrow> ([], Inl (Error ''Input data not found''))
      | Some i \<Rightarrow>
          (let fetched_articles =
                 (case envKey (NEWS_API_KEY w) of
                    None \<Rightarrow> ([], [])
                  | Some apiKey \<Rightarrow>
                      ([NewsGet (crypto_id i @ '' cryptocurrency'') (news_limit i) apiKey],
                       fetchCryptoNews_articles
                         (http_news_wf w (crypto_id i @ '' cryptocurrency'') (news_limit i) apiKey)))
           in (fst fetched_articles,
               Inr \<lparr>priceData =
                      \<lparr>price_data.name = price_out.name i,
                       price_data.symbol = price_out.symbol i,
                       price_data.priceUsd = price_out.priceUsd i,
                       price_data.changePercent24Hr = price_out.changePercent24Hr i\<rparr>,
                    sentimentData =
                      \<lparr>sentiment_data.sentiment = sentiment_out.sentiment i,
                       sentiment_data.score = sentiment_out.score i,
                       sentiment_data.fearGreedValue = sentiment_out.fearGreedValue i,
                       sentiment_data.classification = sentiment_out.classification i\<rparr>,
                    news_out.articles = snd fetched_articles\<rparr>)))"

section \<open>Stage 4: the compiler\<close>

text \<open>
  \<^verbatim>\<open>compileAnalysis\<close>, lines 598-672. The prompt is a function of the stage's input
  alone, so what the language model streams is \<open>agent_stream\<close> of that input: the
  concatenated text, or the error the call throws, which the stage does not catch.
  Number formatting in the prompt is not modelled.
\<close>

definition compileAnalysis_execute ::
  "platform \<Rightarrow> world \<Rightarrow> news_out option \<Rightarrow> exn + analysis_report" where
  "compileAnalysis_execute pf w inputData =
     (case inputData of
        None \<Rightarrow> Inl (Error ''Input data not found'')
      | Some i \<Rightarrow>
          (case agent_stream w i of
             Inl e \<Rightarrow> Inl e
           | Inr analysisText \<Rightarrow>
          Inr \<lparr>analysis_report.analysis = analysisText,
               crypto_info =
                 \<lparr>crypto_info.name = price_data.name (priceData i),
                  crypto_info.symbol = price_data.symbol (priceData i),
                  price_usd = price_data.priceUsd (priceData i),
                  change_24h = price_data.changePercent24Hr (priceData i)\<rparr>,
               sentiment_analysis =
                 \<lparr>sentiment_analysis.sentiment = sentiment_data.sentiment (sentimentData i),
                  sentiment_analysis.score = sentiment_data.score (sentimentData i),
                  sentiment_analysis.fear_greed_value = sentiment_data.fearGreedValue (sentimentData i),
                  sentiment_analysis.classification = sentiment_data.classification (sentimentData i)\<rparr>,
               latest_news =
                 map (\<lambda>a. \<lparr>latest_news_item.title = article.title a,
                           latest_news_item.description = article.description a,
                           latest_news_item.url = article.url a,
                           published_at = article.publishedAt a,
                           latest_news_item.source = article.source a\<rparr>) (news_out.articles i),
               timestamp = toISOString pf (int (now_ms w))\<rparr>))"

section \<open>The workflow\<close>

text \<open>
  \<^verbatim>\<open>cryptoAnalysisWorkflow\<close> (lines 676-719) chains the four stages, each on the value
  the one before returned; a stage that throws ends the run.
\<close>

definition stage1 :: "platform \<Rightarrow> world \<Rightarrow> workflow_input \<Rightarrow> price_out" where
  "stage1 pf w i = snd (fetchCryptoPrice_execute pf w (Some i))"

definition stage2 :: "platform \<Rightarrow> world \<Rightarrow> workflow_input \<Rightarrow> sentiment_out" where
  "stage2 pf w i = snd (fetchSentimentScore_execute pf w (stage1 pf w i))"

definition stage3 :: "platform \<Rightarrow> world \<Rightarrow> workflow_input \<Rightarrow> exn + news_out" where
  "stage3 pf w i = snd (fetchCryptoNews_execute w (Some (stage2 pf w i)))"

definition cryptoAnalysisWorkflow ::
  "platform \<Rightarrow> world \<Rightarrow> workflow_input \<Rightarrow> request list \<times> (exn + analysis_report)" where
  "cryptoAnalysisWorkflow pf w i =
     (let reqs =
            fst (fetchCryptoPrice_execute pf w (Some i))
              @ fst (fetchSentimentScore_execute pf w (stage1 pf w i))
              @ fst (fetchCryptoNews_execute w (Some (stage2 pf w i)))
      in case stage3 pf w i of
           Inl e \<Rightarrow> (reqs, Inl e)
         | Inr n \<Rightarrow> (reqs, compileAnalysis_execute pf w (Some n)))"

section \<open>The news tool\<close>

text \<open>
  \<^verbatim>\<open>String.prototype.includes\<close>, and the two kinds of regular expression the tool
  uses: a case-insensitive literal, and \<^verbatim>\<open>\{.*\}\<close>, where the dot matches no line
  terminator.
\<close>

fun includesStr :: "string \<Rightarrow> string \<Rightarrow> bool" where
  "includesStr [] needle = (needle = [])"
| "includesStr (c # cs) needle = (take (length needle) (c # cs) = needle \<or> includesStr cs needle)"

definition includesCI :: "string \<Rightarrow> string \<Rightarrow> bool" where
  "includesCI s needle = includesStr (toLowerCase s) (toLowerCase needle)"

fun closingBrace :: "string \<Rightarrow> bool" where
  "closingBrace [] = False"
| "closingBrace (c # cs) =
     (if c = CHR ''}'' then True
      else if of_char c \<in> {10, 13 :: nat} then False
      else closingBrace cs)"

fun matchesBraces :: "string \<Rightarrow> bool" where
  "matchesBraces [] = False"
| "matchesBraces (c # cs) = ((c = CHR ''{'' \<and> closingBrace cs) \<or> matchesBraces cs)"

definition dangerousPatterns :: "(string \<Rightarrow> bool) list" where
  "dangerousPatterns =
     [\<lambda>s. includesCI s ''<script'',
      \<lambda>s. includesCI s ''javascript:'',
      \<lambda>s. includesCI s ''data:'',
      \<lambda>s. includesCI s ''vbscript:'',
      \<lambda>s. includesCI s ''<iframe'',
      matchesBraces]"

text \<open>\<^verbatim>\<open>isValidUrl\<close> and \<^verbatim>\<open>isValidDate\<close> (lines 212-226).\<close>

definition isValidUrl :: "platform \<Rightarrow> string option \<Rightarrow> bool" where
  "isValidUrl pf u =
     (case u of
        None \<Rightarrow> False
      | Some s \<Rightarrow>
          if s = [] then False
          else (case urlProtocol pf s of
                  None \<Rightarrow> False
                | Some protocol \<Rightarrow> protocol = ''http:'' \<or> protocol = ''https:''))"

definition isValidDate :: "platform \<Rightarrow> string option \<Rightarrow> bool" where
  "isValidDate pf dateString =
     (case dateString of
        None \<Rightarrow> False
      | Some s \<Rightarrow>
          if s = [] then False
          else (case dateFullYear pf s of None \<Rightarrow> False | Some y \<Rightarrow> y > 2000))"

text \<open>The function mapped over the fetched articles (lines 162-189).\<close>

definition sanitizeArticle :: "platform \<Rightarrow> world \<Rightarrow> raw_article \<Rightarrow> article" where
  "sanitizeArticle pf w a =
     \<lparr>article.title = take 200 (optOrElse (ra_title a) ''No title''),
      article.description = take 500 (optOrElse (ra_description a) ''No description available''),
      article.url = (if isValidUrl pf (ra_url a) then the (ra_url a) else ''#''),
      article.publishedAt =
        (if isValidDate pf (ra_publishedAt a) then the (ra_publishedAt a)
         else toISOString pf (int (now_ms w))),
      article.source = take 100 (optOrElse (ra_source a) ''Unknown'')\<rparr>"

text \<open>
  \<^verbatim>\<open>fetchCryptoNewsWithFallback\<close>, lines 125-198: the live tier. \<^verbatim>\<open>slice(0, limit)\<close>
  truncates a fractional limit.
\<close>

definition fetchCryptoNews_live ::
  "platform \<Rightarrow> world \<Rightarrow> real \<Rightarrow> news_body option fetched \<Rightarrow> exn + news_tool_out" where
  "fetchCryptoNews_live pf w limit resp =
     (case resp of
        FetchThrew e \<Rightarrow> Inl e
      | Response st txt body \<Rightarrow>
          if \<not> ok st then
            Inl (Error
              (if st = 429 then ''Rate limit exceeded for NewsAPI. Using fallback source.''
               else if st = 401 then ''Invalid NewsAPI key. Using fallback source.''
               else if st \<ge> 500 then ''NewsAPI service unavailable. Using fallback source.''
               else ''NewsAPI error: '' @ showNat st @ '' '' @ txt))
          else
            (case body of
               JsonThrew e \<Rightarrow> Inl e
             | Json None \<Rightarrow> Inl (Error ''Invalid response format from NewsAPI'')
             | Json (Some d) \<Rightarrow>
                 if nb_status d = Some ''error'' then
                   Inl (Error (''NewsAPI error: '' @ optOrElse (nb_message d) ''Unknown error''))
                 else
                   (case nb_articles d of
                      None \<Rightarrow> Inl (Error ''No articles found in NewsAPI response'')
                    | Some arts \<Rightarrow>
                        (let sanitized =
                               map (sanitizeArticle pf w)
                                 (take (nat \<lfloor>limit\<rfloor>) (List.map_filter (\<lambda>a. a) arts))
                         in if length sanitized = 0 then Inl (Error ''No valid articles found'')
                            else Inr \<lparr>news_tool_out.articles = sanitized,
                                      news_tool_out.error = None,
                                      news_tool_out.source = Some ''NewsAPI''\<rparr>))))"

text \<open>
  \<^verbatim>\<open>fetchCryptoNewsFromAlternativeSource\<close> (lines 229-341): six templated articles.
  \<^verbatim>\<open>replace\<close> substitutes the first match of \<^verbatim>\<open>/Bitcoin|Ethereum|DeFi/i\<close>. In
  the replacement string a dollar sign followed by a dollar sign, an ampersand, a
  backtick or an apostrophe stands for a dollar sign, the matched text, the text before
  the match and the text after it; the pattern has no groups, so every other dollar
  sign stands for itself. Only ASCII letters match the pattern's letters.
\<close>

definition capitalize :: "string \<Rightarrow> string" where
  "capitalize q = (case q of [] \<Rightarrow> [] | c # cs \<Rightarrow> upperChar c @ cs)"

fun expandReplacement :: "string \<Rightarrow> string \<Rightarrow> string \<Rightarrow> string \<Rightarrow> string" where
  "expandReplacement matched before after (c # d # cs) =
     (if c = CHR 0x24 then
        (if d = CHR 0x24 then CHR 0x24 # expandReplacement matched before after cs
         else if d = CHR 0x26 then matched @ expandReplacement matched before after cs
         else if d = CHR 0x60 then before @ expandReplacement matched before after cs
         else if d = CHR 0x27 then after @ expandReplacement matched before after cs
         else c # expandReplacement matched before after (d # cs))
      else c # expandReplacement matched before after (d # cs))"
| "expandReplacement matched before after cs = cs"

fun replaceFirstCI :: "string list \<Rightarrow> string \<Rightarrow> string \<Rightarrow> string \<Rightarrow> string" where
  "replaceFirstCI alts rep before [] = []"
| "replaceFirstCI alts rep before (c # cs) =
     (case find (\<lambda>a. toLowerCase (take (length a) (c # cs)) = a) alts of
        Some a \<Rightarrow>
          expandReplacement (take (length a) (c # cs)) before (drop (length a) (c # cs)) rep
            @ drop (length a) (c # cs)
      | None \<Rightarrow> c # replaceFirstCI alts rep (before @ [c]) cs)"

definition baseArticles :: "platform \<Rightarrow> world \<Rightarrow> string \<Rightarrow> article list" where
  "baseArticles pf w query =
     [\<lparr>article.title = capitalize query @ '' Market Analysis: Key Trends and Developments'',
       article.description =
         ''Comprehensive analysis of '' @ query
           @ '' market trends, showing recent price movements and market sentiment indicators.'',
       article.url = ''https://coindesk.com'',
       article.publishedAt = toISOString pf (int (now_ms w)),
       article.source = ''CoinDesk''\<rparr>,
      \<lparr>article.title = ''Bitcoin Price Analysis and Market Outlook'',
       article.description =
         ''Technical analysis reveals key support and resistance levels for Bitcoin in the current market cycle with implications for the broader crypto market.'',
       article.url = ''https://cointelegraph.com'',
       article.publishedAt = toISOString pf (int (now_ms w) - 3600000),
       article.source = ''Cointelegraph''\<rparr>,
      \<lparr>article.title = ''Ethereum Network Upgrade and DeFi Impact'',
       article.description =
         ''Latest Ethereum network improvements and their significant impact on the decentralized finance ecosystem and gas fees.'',
       article.url = ''https://decrypt.co'',
       article.publishedAt = toISOString pf (int (now_ms w) - 7200000),
       article.source = ''Decrypt''\<rparr>,
      \<lparr>article.title = ''Global Crypto Regulation Updates and Market Response'',
       article.description =
         ''Recent regulatory developments affecting the cryptocurrency industry globally, including new policies from major economies.'',
       article.url = ''https://coindesk.com'',
       article.publishedAt = toISOString pf (int (now_ms w) - 10800000),
       article.source = ''CoinDesk''\<rparr>,
      \<lparr>article.title = ''DeFi Protocol Security Analysis and Best Practices'',
       article.description =
         ''In-depth security considerations and best practices for decentralized finance protocols following recent security incidents.'',
       article.url = ''https://theblock.co'',
       article.publishedAt = toISOString pf (int (now_ms w) - 14400000),
       article.source = ''The Block''\<rparr>,
      \<lparr>article.title = ''Institutional Adoption of Cryptocurrency Continues'',
       article.description =
         ''Major corporations and financial institutions continue to adopt cryptocurrency solutions, driving mainstream acceptance.'',
       article.url = ''https://coindesk.com'',
       article.publishedAt = toISOString pf (int (now_ms w) - 18000000),
       article.source = ''CoinDesk''\<rparr>]"

definition customizeArticle :: "string \<Rightarrow> article \<Rightarrow> article" where
  "customizeArticle query a =
     a\<lparr>article.title :=
         (if includesStr (article.title a) query then article.title a
          else replaceFirstCI [''bitcoin'', ''ethereum'', ''defi''] (capitalize query) []
                 (article.title a)),
       article.description :=
         (if includesStr (article.description a) query then article.description a
          else article.description a @ '' Analysis focuses on '' @ query @ '' market dynamics.'')\<rparr>"

definition fetchCryptoNewsFromAlternativeSource ::
  "platform \<Rightarrow> world \<Rightarrow> string \<Rightarrow> real \<Rightarrow> news_tool_out" where
  "fetchCryptoNewsFromAlternativeSource pf w query limit0 =
     (if query = [] \<or> length (trim query) = 0 then
        \<lparr>news_tool_out.articles =
           [\<lparr>article.title = ''Crypto News Service Temporarily Unavailable'',
             article.description =
               ''Unable to fetch crypto news at the moment due to service issues. Please try again later or check major crypto news websites directly.'',
             article.url = ''#'',
             article.publishedAt = toISOString pf (int (now_ms w)),
             article.source = ''System Notice''\<rparr>],
         news_tool_out.error = Some ''Invalid query for fallback news source'',
         news_tool_out.source = Some ''error''\<rparr>
      else
        let limit = (if limit0 < 1 \<or> limit0 > 20 then 5 else limit0);
            customizedArticles = map (customizeArticle query) (baseArticles pf w query);
            selectedArticles =
              take (nat \<lfloor>min limit (real (length (baseArticles pf w query)))\<rfloor>) customizedArticles
        in \<lparr>news_tool_out.articles = selectedArticles,
            news_tool_out.error = Some ''Primary news source unavailable, using fallback content'',
            news_tool_out.source = Some ''fallback''\<rparr>)"

text \<open>\<^verbatim>\<open>fetchCryptoNewsWithFallback\<close> (lines 95-209).\<close>

definition fetchCryptoNewsWithFallback ::
  "platform \<Rightarrow> world \<Rightarrow> string \<Rightarrow> real \<Rightarrow> request list \<times> news_tool_out" where
  "fetchCryptoNewsWithFallback pf w query limit =
     (case envKey (NEWSAPI_KEY w) of
        None \<Rightarrow> ([], fetchCryptoNewsFromAlternativeSource pf w query limit)
      | Some apiKey \<Rightarrow>
          ([NewsGet (query @ '' cryptocurrency bitcoin ethereum crypto'') limit apiKey],
           (case fetchCryptoNews_live pf w limit
                   (http_news w (query @ '' cryptocurrency bitcoin ethereum crypto'') limit apiKey) of
              Inr r \<Rightarrow> r
            | Inl e \<Rightarrow> fetchCryptoNewsFromAlternativeSource pf w query limit)))"

text \<open>
  The tool's \<^verbatim>\<open>execute\<close> (lines 41-91). \<open>query\<close> and \<open>limit\<close> are optional;
  \<^verbatim>\<open>context.limit || 5\<close> also replaces 0.
\<close>

definition getCryptoNews_execute ::
  "platform \<Rightarrow> world \<Rightarrow> string option \<Rightarrow> real option \<Rightarrow> request list \<times> news_tool_out" where
  "getCryptoNews_execute pf w query limit =
     (let sanitizedQuery =
            (case query of None \<Rightarrow> ''cryptocurrency'' | Some q \<Rightarrow> orElse (trim q) ''cryptocurrency'');
          validLimit =
            max 1 (min 20 (case limit of None \<Rightarrow> 5 | Some l \<Rightarrow> if l = 0 then 5 else l));
          thrown =
            (if length sanitizedQuery = 0 then Some (Error ''Search query cannot be empty'')
             else if list_ex (\<lambda>pattern. pattern sanitizedQuery) dangerousPatterns then
               Some (Error ''Invalid characters in search query'')
             else None)
      in case thrown of
           None \<Rightarrow> fetchCryptoNewsWithFallback pf w sanitizedQuery validLimit
         | Some e \<Rightarrow>
             ([],
              \<lparr>news_tool_out.articles =
                 [\<lparr>article.title = ''Error Fetching News'',
                   article.description = exn_message e,
                   article.url = ''#'',
                   article.publishedAt = toISOString pf (int (now_ms w)),
                   article.source = ''System Error''\<rparr>],
               news_tool_out.error = Some (exn_message e),
               news_tool_out.source = Some ''fallback''\<rparr>))"

section \<open>The rules as the specification words them\<close>

text \<open>
  The conversion rule of the specification: the score is the clamped quotient, the
  label is three-way, and the classification is the first bucket, read top-down, whose
  threshold the value reaches.
\<close>

definition spec_clamp :: "real \<Rightarrow> real \<Rightarrow> real \<Rightarrow> real" where
  "spec_clamp x lo hi = (if x < lo then lo else if hi < x then hi else x)"

definition spec_sentiment :: "real \<Rightarrow> sentiment" where
  "spec_sentiment v = (if v \<ge> 60 then bullish else if v \<le> 40 then bearish else neutral)"

definition spec_buckets :: "(real \<times> string) list" where
  "spec_buckets = [(75, ''Extreme Greed''), (55, ''Greed''), (45, ''Neutral''), (25, ''Fear'')]"

fun firstMatch :: "(real \<times> string) list \<Rightarrow> string \<Rightarrow> real \<Rightarrow> string" where
  "firstMatch [] other v = other"
| "firstMatch ((t, label) # bs) other v = (if v \<ge> t then label else firstMatch bs other v)"

text \<open>
  The fallback value as the specification words it: the sum of the character codes plus
  the hour bucket, modulo 100; during the hours 9 to 16 replaced by its distance from 50
  plus 30; clamped to 0..100.
\<close>

definition spec_fallback_value :: "string \<Rightarrow> nat \<Rightarrow> nat \<Rightarrow> int" where
  "spec_fallback_value symb now h =
     (let base = (sum_list (map of_char symb) + now div 3600000) mod 100;
          adjusted = (if 9 \<le> h \<and> h \<le> 16 then \<bar>int base - 50\<bar> + 30 else int base)
      in max 0 (min 100 adjusted))"

text \<open>
  A malformed identifier as the specification words it: empty or white space only,
  containing one of \<^verbatim>\<open>< > { } [ ] \ /\<close>, or digits only.
\<close>

definition malformed :: "string \<Rightarrow> bool" where
  "malformed s =
     (list_all isWhiteSpace s
      \<or> list_ex (\<lambda>c. c \<in> set (''<>{}[]/'' @ [CHR 0x5C])) s
      \<or> (s \<noteq> [] \<and> list_all isDigit s))"

text \<open>
  The input schema declared for the first step (lines 95-110): both strings have at
  least one character and the limit lies between 1 and 20.
\<close>

definition fetchCryptoPrice_inputSchema :: "workflow_input \<Rightarrow> bool" where
  "fetchCryptoPrice_inputSchema i =
     (length (crypto_id i) \<ge> 1 \<and> length (crypto_symbol i) \<ge> 1
      \<and> news_limit i \<ge> 1 \<and> news_limit i \<le> 20)"

text \<open>
  A failed provider call or a failed parse in the workflow's news stage, as the
  specification words it: the fetch throws, the status is not a success, the body is
  not JSON, or the body has no usable article array.
\<close>

definition news_call_failed :: "wf_raw_article list option fetched \<Rightarrow> bool" where
  "news_call_failed resp =
     (case resp of
        FetchThrew e \<Rightarrow> True
      | Response st txt body \<Rightarrow>
          \<not> ok st
          \<or> (case body of
                JsonThrew e \<Rightarrow> True
              | Json None \<Rightarrow> True
              | Json (Some arts) \<Rightarrow> list_ex (\<lambda>a. wa_source a = None) arts))"

text \<open>
  The clamped limit of the news tool: the limit, or 5 when it is absent or 0 (the
  default of \<^verbatim>\<open>limit || 5\<close>), clamped to 1..20.
\<close>

definition clamped_limit :: "real option \<Rightarrow> real" where
  "clamped_limit limit =
     spec_clamp (case limit of None \<Rightarrow> 5 | Some l \<Rightarrow> if l = 0 then 5 else l) 1 20"

section \<open>Sample platform and worlds\<close>

text \<open>
  Concrete inputs to run the model on. In \<open>sample_platform\<close>, \<^verbatim>\<open>parseFloat\<close> is
  \<open>ecma_parseFloat\<close>; the other built-ins are stand-ins: numbers print as their integral
  part, a URL has a protocol only when it begins with \<^verbatim>\<open>http://\<close> or
  \<^verbatim>\<open>https://\<close>, a date is valid when it begins with a four-digit year, and a time
  prints as its milliseconds.
\<close>

definition sample_numToString :: "jsnum \<Rightarrow> string" where
  "sample_numToString n =
     (case n of
        NaN \<Rightarrow> ''NaN''
      | NegInf \<Rightarrow> ''-Infinity''
      | PosInf \<Rightarrow> ''Infinity''
      | Fin r \<Rightarrow> (if r < 0 then ''-'' else []) @ showNat (nat \<lfloor>\<bar>r\<bar>\<rfloor>))"

definition sample_urlProtocol :: "string \<Rightarrow> string option" where
  "sample_urlProtocol u =
     (if take 8 (toLowerCase u) = ''https://'' \<and> length u > 8 then Some ''https:''
      else if take 7 (toLowerCase u) = ''http://'' \<and> length u > 7 then Some ''http:''
      else None)"

definition sample_dateFullYear :: "string \<Rightarrow> int option" where
  "sample_dateFullYear s =
     (if length (takeWhile isDigit s) = 4 then Some (int (digitsVal (take 4 s))) else None)"

definition sample_toISOString :: "int \<Rightarrow> string" where
  "sample_toISOString ms = showNat (nat ms)"

definition sample_platform :: platform where
  "sample_platform =
     \<lparr>parseFloat = ecma_parseFloat,
      numToString = sample_numToString,
      urlProtocol = sample_urlProtocol,
      dateFullYear = sample_dateFullYear,
      toISOString = sample_toISOString\<rparr>"

text \<open>
  \<open>offline_world\<close>: no credential is set and every provider is unreachable; the clock
  reads Sunday 12 November 2023, 20:30, in a process whose local time is UTC.
\<close>

definition unreachable :: "'b fetched" where
  "unreachable = FetchThrew (Exn ''TypeError'' ''fetch failed'')"

definition offline_world :: world where
  "offline_world =
     \<lparr>COINCAP_API_KEY = None,
      COINMARKETCAP_API_KEY = None,
      NEWS_API_KEY = None,
      NEWSAPI_KEY = None,
      now_ms = 1699821000000,
      hour = 20,
      dayOfWeek = 0,
      http_rates = (\<lambda>normalizedId apiKey. unreachable),
      http_feargreed = (\<lambda>apiKey. unreachable),
      http_news_wf = (\<lambda>q pageSize apiKey. unreachable),
      http_news = (\<lambda>q pageSize apiKey. unreachable),
      agent_stream = (\<lambda>i. Inr ''report'')\<rparr>"

text \<open>\<open>keyed_world\<close>: every credential is set, and still no provider answers.\<close>

definition keyed_world :: world where
  "keyed_world =
     offline_world\<lparr>COINCAP_API_KEY := Some ''k1'',
                   COINMARKETCAP_API_KEY := Some ''k2'',
                   NEWS_API_KEY := Some ''k3'',
                   NEWSAPI_KEY := Some ''k4''\<rparr>"

definition btc_input :: workflow_input where
  "btc_input = \<lparr>crypto_id = ''bitcoin'', crypto_symbol = ''BTC'', news_limit = 3\<rparr>"

definition btc_price :: price_out where
  "btc_price =
     \<lparr>crypto_id = ''bitcoin'', crypto_symbol = ''BTC'', news_limit = 3,
      price_out.name = ''bitcoin'', price_out.symbol = ''BTC'',
      price_out.priceUsd = ''43000.5'', price_out.changePercent24Hr = Some ''N/A'',
      price_out.error = None\<rparr>"

text \<open>
  \<open>rates_world r\<close>: every credential is set and the rates provider answers 200 with
  the rate \<open>r\<close> for bitcoin; the other providers are unreachable.
  \<open>rates_status_world st\<close>: the rates provider answers with the status \<open>st\<close>.
\<close>

definition rates_world :: "string \<Rightarrow> world" where
  "rates_world r =
     keyed_world\<lparr>http_rates :=
       (\<lambda>normalizedId apiKey.
          Response 200 ''OK''
            (Json (Some \<lparr>rb_data =
               Some \<lparr>rd_id = Some ''bitcoin'', rd_symbol = Some ''BTC'', rateUsd = Some r\<rparr>\<rparr>)))\<rparr>"

definition rates_status_world :: "nat \<Rightarrow> world" where
  "rates_status_world st =
     keyed_world\<lparr>http_rates :=
       (\<lambda>normalizedId apiKey. Response st [] (JsonThrew (Exn ''SyntaxError'' ''Unexpected end of JSON input'')))\<rparr>"

definition etc_input :: workflow_input where
  "etc_input = \<lparr>crypto_id = ''../etc'', crypto_symbol = ''ETC'', news_limit = 3\<rparr>"

text \<open>
  \<open>news_world\<close>: the news provider answers both callers with one article whose title
  has 201 characters, whose URL is \<open>not-a-url\<close> and whose date is \<open>1999-01-01\<close>.
\<close>

definition long_title :: string where
  "long_title = replicate 201 (CHR ''a'')"

definition old_article :: raw_article where
  "old_article =
     \<lparr>ra_title = Some long_title, ra_description = None, ra_url = Some ''not-a-url'',
      ra_publishedAt = Some ''1999-01-01'', ra_source = Some ''Example''\<rparr>"

definition old_news_body :: news_body where
  "old_news_body =
     \<lparr>nb_status = Some ''ok'', nb_message = None, nb_articles = Some [Some old_article]\<rparr>"

definition news_world :: world where
  "news_world =
     keyed_world\<lparr>http_news_wf :=
       (\<lambda>q pageSize apiKey.
          Response 200 ''OK''
            (Json (Some [\<lparr>wa_title = long_title, wa_description = None, wa_url = ''not-a-url'',
                          wa_publishedAt = ''1999-01-01'', wa_source = Some ''Example''\<rparr>]))),
                  http_news := (\<lambda>q pageSize apiKey. Response 200 ''OK'' (Json (Some old_news_body)))\<rparr>"

definition btc_sentiment :: sentiment_out where
  "btc_sentiment =
     price_out.extend btc_price (sentiment_out.fields neutral 0 50 ''Neutral'' None None)"

section \<open>Properties\<close>

text \<open>
  C2. For every value between 0 and 100 both copies of the conversion compute the
  clamped score \<open>(v - 50) / 50\<close> (which the clamp leaves as it is on this range), the
  label bullish from 60 up, bearish up to 40 and neutral between, and the classification
  of the first bucket among 75, 55, 45, 25 that the value reaches, else Extreme Fear; at
  60, 40 and 50 the labels are bullish, bearish and neutral, and the scores at 100 and 0
  are 1 and -1.
\<close>

theorem sentiment_conversion_rule:
  assumes "0 \<le> v" and "v \<le> 100"
  shows "ss_score (convertToSentiment v) = spec_clamp ((v - 50) / 50) (- 1) 1
       \<and> ss_score (convertToSentiment v) = (v - 50) / 50
       \<and> ss_sentiment (convertToSentiment v) = spec_sentiment v
       \<and> getFearGreedClassification v = firstMatch spec_buckets ''Extreme Fear'' v
       \<and> tool_convertToSentiment v = convertToSentiment v
       \<and> tool_getFearGreedClassification v = getFearGreedClassification v
       \<and> ss_sentiment (convertToSentiment 60) = bullish
       \<and> ss_sentiment (convertToSentiment 40) = bearish
       \<and> ss_sentiment (convertToSentiment 50) = neutral
       \<and> ss_score (convertToSentiment 100) = 1
       \<and> ss_score (convertToSentiment 0) = - 1"
  using assms
  by (simp add: convertToSentiment_def tool_convertToSentiment_def spec_clamp_def
      spec_sentiment_def getFearGreedClassification_def tool_getFearGreedClassification_def
      spec_buckets_def Let_def min_def max_def)

theorem sentiment_conversion_rule_witness:
  "(0::real) \<le> 75 \<and> (75::real) \<le> 100
   \<and> ss_score (convertToSentiment 75) = 1 / 2
   \<and> ss_sentiment (convertToSentiment 75) = bullish
   \<and> getFearGreedClassification 75 = ''Extreme Greed''"
  using sentiment_conversion_rule [of 75]
  by (simp add: spec_sentiment_def spec_buckets_def)

subsection \<open>Helper facts\<close>

lemmas sample_defs =
  sample_platform_def offline_world_def keyed_world_def unreachable_def btc_price_def btc_input_def

lemma foldl_charcodes:
  "foldl (\<lambda>acc c. acc + of_char c) (a::nat) xs = a + sum_list (map of_char xs)"
  by (induction xs arbitrary: a) simp_all

lemma generateFallbackSentiment_value:
  "fb_fear_greed_value (generateFallbackSentiment w symb) = spec_fallback_value symb (now_ms w) (hour w)"
  by (simp add: generateFallbackSentiment_def spec_fallback_value_def Let_def foldl_charcodes
      mod_add_right_eq)

lemma generateFallbackSentiment_conv:
  "fb_sentiment (generateFallbackSentiment w symb)
     = ss_sentiment (convertToSentiment (real_of_int (spec_fallback_value symb (now_ms w) (hour w))))"
  "fb_score (generateFallbackSentiment w symb)
     = ss_score (convertToSentiment (real_of_int (spec_fallback_value symb (now_ms w) (hour w))))"
  by (simp_all add: generateFallbackSentiment_def spec_fallback_value_def Let_def foldl_charcodes
      mod_add_right_eq)

subsection \<open>The sentiment stage's fallback\<close>

text \<open>
  C4, as the code has it. When the \<^verbatim>\<open>try\<close> block of the workflow's sentiment stage
  throws (the symbol is empty, the provider call fails, or the response fails
  validation), the stage's sentiment and score are the conversion rule applied to the
  value \<open>spec_fallback_value\<close>: the character codes of the symbol plus the hour bucket,
  modulo 100, replaced by its distance from 50 plus 30 exactly in the hours 9 to 16, and
  clamped to 0..100. The reported fear-greed value is that value whenever it is not 0,
  the classification is the fixed text \<open>Neutral (Fallback)\<close>, and the error carries the
  thrown message. A missing credential does not take this path: the stage then issues no
  request and returns the fixed record neutral, 0, 50, \<open>Neutral (API Unavailable)\<close>.
  A failing provider call or validation is a throw of the \<^verbatim>\<open>try\<close> block.
\<close>

theorem sentiment_stage_fallback:
  "(snd (fetchSentimentScore_try pf w i) = Inl e \<longrightarrow>
      sentiment_out.sentiment (snd (fetchSentimentScore_execute pf w i))
        = ss_sentiment (convertToSentiment (real_of_int
            (spec_fallback_value (orElse (crypto_symbol i) ''UNKNOWN'') (now_ms w) (hour w))))
    \<and> sentiment_out.score (snd (fetchSentimentScore_execute pf w i))
        = ss_score (convertToSentiment (real_of_int
            (spec_fallback_value (orElse (crypto_symbol i) ''UNKNOWN'') (now_ms w) (hour w))))
    \<and> (spec_fallback_value (orElse (crypto_symbol i) ''UNKNOWN'') (now_ms w) (hour w) \<noteq> 0 \<longrightarrow>
         sentiment_out.fearGreedValue (snd (fetchSentimentScore_execute pf w i))
           = real_of_int (spec_fallback_value (orElse (crypto_symbol i) ''UNKNOWN'') (now_ms w) (hour w)))
    \<and> sentiment_out.classification (snd (fetchSentimentScore_execute pf w i)) = ''Neutral (Fallback)''
    \<and> sentiment_error (snd (fetchSentimentScore_execute pf w i)) = Some (exn_message e))
   \<and> (crypto_symbol i \<noteq> [] \<and> envKey (COINMARKETCAP_API_KEY w) = None \<longrightarrow>
        fst (fetchSentimentScore_execute pf w i) = []
      \<and> sentiment_out.sentiment (snd (fetchSentimentScore_execute pf w i)) = neutral
      \<and> sentiment_out.score (snd (fetchSentimentScore_execute pf w i)) = 0
      \<and> sentiment_out.fearGreedValue (snd (fetchSentimentScore_execute pf w i)) = 50
      \<and> sentiment_out.classification (snd (fetchSentimentScore_execute pf w i))
           = ''Neutral (API Unavailable)''
      \<and> sentiment_error (snd (fetchSentimentScore_execute pf w i))
           = Some ''API key not configured, using fallback sentiment'')
   \<and> (crypto_symbol i \<noteq> [] \<and> envKey (COINMARKETCAP_API_KEY w) = Some k
        \<and> fetchSentimentScore_response pf i (http_feargreed w k) = Inl e \<longrightarrow>
        snd (fetchSentimentScore_try pf w i) = Inl e)"
proof (intro conjI impI)
  assume t: "snd (fetchSentimentScore_try pf w i) = Inl e"
  then obtain reqs where tr: "fetchSentimentScore_try pf w i = (reqs, Inl e)"
    by (cases "fetchSentimentScore_try pf w i") simp
  let ?r = "snd (fetchSentimentScore_execute pf w i)"
  let ?v = "spec_fallback_value (orElse (crypto_symbol i) ''UNKNOWN'') (now_ms w) (hour w)"
  have ex: "?r = price_out.extend i
                 (sentiment_out.fields
                    (fb_sentiment (generateFallbackSentiment w (orElse (crypto_symbol i) ''UNKNOWN'')))
                    (fb_score (generateFallbackSentiment w (orElse (crypto_symbol i) ''UNKNOWN'')))
                    (if fb_fear_greed_value (generateFallbackSentiment w (orElse (crypto_symbol i) ''UNKNOWN'')) = 0 then 50
                     else real_of_int (fb_fear_greed_value (generateFallbackSentiment w (orElse (crypto_symbol i) ''UNKNOWN''))))
                    ''Neutral (Fallback)''
                    (price_out.error i)
                    (Some (exn_message e)))"
    by (simp add: fetchSentimentScore_execute_def tr Let_def)
  show "sentiment_out.sentiment ?r = ss_sentiment (convertToSentiment (real_of_int ?v))"
    by (simp add: ex price_out.defs sentiment_out.defs generateFallbackSentiment_conv)
  show "sentiment_out.score ?r = ss_score (convertToSentiment (real_of_int ?v))"
    by (simp add: ex price_out.defs sentiment_out.defs generateFallbackSentiment_conv)
  show "sentiment_out.classification ?r = ''Neutral (Fallback)''"
    by (simp add: ex price_out.defs sentiment_out.defs)
  show "sentiment_error ?r = Some (exn_message e)"
    by (simp add: ex price_out.defs sentiment_out.defs)
  show "sentiment_out.fearGreedValue ?r = real_of_int ?v" if "?v \<noteq> 0"
    using that by (simp add: ex price_out.defs sentiment_out.defs generateFallbackSentiment_value)
next
  assume a: "crypto_symbol i \<noteq> [] \<and> envKey (COINMARKETCAP_API_KEY w) = None"
  let ?r = "snd (fetchSentimentScore_execute pf w i)"
  have ex: "fetchSentimentScore_execute pf w i = ([], price_out.extend i
                    (sentiment_out.fields neutral 0 50 ''Neutral (API Unavailable)''
                       (price_out.error i)
                       (Some ''API key not configured, using fallback sentiment'')))"
    using a by (simp add: fetchSentimentScore_execute_def fetchSentimentScore_try_def)
  show "fst (fetchSentimentScore_execute pf w i) = []" by (simp add: ex)
  show "sentiment_out.sentiment ?r = neutral" by (simp add: ex price_out.defs sentiment_out.defs)
  show "sentiment_out.score ?r = 0" by (simp add: ex price_out.defs sentiment_out.defs)
  show "sentiment_out.fearGreedValue ?r = 50" by (simp add: ex price_out.defs sentiment_out.defs)
  show "sentiment_out.classification ?r = ''Neutral (API Unavailable)''"
    by (simp add: ex price_out.defs sentiment_out.defs)
  show "sentiment_error ?r = Some ''API key not configured, using fallback sentiment''"
    by (simp add: ex price_out.defs sentiment_out.defs)
next
  assume "crypto_symbol i \<noteq> [] \<and> envKey (COINMARKETCAP_API_KEY w) = Some k
        \<and> fetchSentimentScore_response pf i (http_feargreed w k) = Inl e"
  then show "snd (fetchSentimentScore_try pf w i) = Inl e"
    by (simp add: fetchSentimentScore_try_def)
qed

theorem sentiment_stage_fallback_witness:
  "snd (fetchSentimentScore_try sample_platform keyed_world btc_price)
      = Inl (Exn ''TypeError'' ''fetch failed'')
   \<and> sentiment_out.sentiment (snd (fetchSentimentScore_execute sample_platform keyed_world btc_price))
      = bullish
   \<and> sentiment_out.fearGreedValue (snd (fetchSentimentScore_execute sample_platform keyed_world btc_price))
      = 89
   \<and> sentiment_out.classification (snd (fetchSentimentScore_execute sample_platform keyed_world btc_price))
      = ''Neutral (Fallback)''
   \<and> envKey (COINMARKETCAP_API_KEY offline_world) = None
   \<and> sentiment_out.fearGreedValue (snd (fetchSentimentScore_execute sample_platform offline_world btc_price))
      = 50"
proof -
  have v: "spec_fallback_value (orElse (crypto_symbol btc_price) ''UNKNOWN'') (now_ms keyed_world)
             (hour keyed_world) = 89"
    by (simp add: spec_fallback_value_def sample_defs orElse_def)
  have t: "snd (fetchSentimentScore_try sample_platform keyed_world btc_price)
             = Inl (Exn ''TypeError'' ''fetch failed'')"
    by (simp add: fetchSentimentScore_try_def fetchSentimentScore_response_def sample_defs envKey_def)
  have k: "crypto_symbol btc_price \<noteq> [] \<and> envKey (COINMARKETCAP_API_KEY offline_world) = None"
    by (simp add: sample_defs envKey_def)
  have c: "ss_sentiment (convertToSentiment 89) = bullish"
    by (simp add: convertToSentiment_def)
  show ?thesis
    using sentiment_stage_fallback [of sample_platform keyed_world btc_price
        "Exn ''TypeError'' ''fetch failed''"]
      sentiment_stage_fallback [of sample_platform offline_world btc_price]
      t k
    by (simp add: v c)
qed

text \<open>
  The claim C4 as stated fails where the credential is missing: for the symbol BTC at
  20 h the rule gives 89 (bullish), the stage reports 50 (neutral). It fails for the
  classification on the \<^verbatim>\<open>catch\<close> path too, which is \<open>Neutral (Fallback)\<close> where
  the conversion rule classifies 89 as Extreme Greed.
\<close>

theorem sentiment_stage_fallback_counterexample:
  "envKey (COINMARKETCAP_API_KEY offline_world) = None
   \<and> sentiment_out.fearGreedValue (snd (fetchSentimentScore_execute sample_platform offline_world btc_price))
      = 50
   \<and> spec_fallback_value (crypto_symbol btc_price) (now_ms offline_world) (hour offline_world) = 89
   \<and> sentiment_out.sentiment (snd (fetchSentimentScore_execute sample_platform offline_world btc_price))
      = neutral
   \<and> ss_sentiment (convertToSentiment 89) = bullish
   \<and> snd (fetchSentimentScore_try sample_platform keyed_world btc_price)
      = Inl (Exn ''TypeError'' ''fetch failed'')
   \<and> sentiment_out.classification (snd (fetchSentimentScore_execute sample_platform keyed_world btc_price))
      = ''Neutral (Fallback)''
   \<and> getFearGreedClassification 89 = ''Extreme Greed''"
  by (simp add: fetchSentimentScore_execute_def fetchSentimentScore_try_def
      fetchSentimentScore_response_def sample_defs envKey_def spec_fallback_value_def
      convertToSentiment_def getFearGreedClassification_def price_out.defs sentiment_out.defs Let_def orElse_def)

text \<open>
  The value 0 is the one the \<^verbatim>\<open>catch\<close> block does not report: for the symbol BTC
  on Monday 13 November 2023 at 7:30 the rule gives 0; the stage's sentiment and score
  are those of 0, and the reported value is 50.
\<close>

lemma fallback_zero_reported_as_fifty:
  "spec_fallback_value ''BTC'' 1699860600000 7 = 0
   \<and> sentiment_out.fearGreedValue
        (snd (fetchSentimentScore_execute sample_platform (keyed_world\<lparr>now_ms := 1699860600000, hour := 7, dayOfWeek := 1\<rparr>)
               btc_price)) = 50
   \<and> sentiment_out.sentiment
        (snd (fetchSentimentScore_execute sample_platform (keyed_world\<lparr>now_ms := 1699860600000, hour := 7, dayOfWeek := 1\<rparr>)
               btc_price)) = bearish
   \<and> sentiment_out.score
        (snd (fetchSentimentScore_execute sample_platform (keyed_world\<lparr>now_ms := 1699860600000, hour := 7, dayOfWeek := 1\<rparr>)
               btc_price)) = - 1"
  by (simp add: fetchSentimentScore_execute_def fetchSentimentScore_try_def
      fetchSentimentScore_response_def generateFallbackSentiment_def sample_defs envKey_def
      spec_fallback_value_def convertToSentiment_def price_out.defs sentiment_out.defs
      Let_def orElse_def)

subsection \<open>The two copies of the fallback\<close>

text \<open>
  C5, as the code has it. The workflow's and the tool's copies of
  \<^verbatim>\<open>generateFallbackSentiment\<close> compute the same fear-greed value, sentiment and score
  for every symbol whenever the day is Monday to Friday or the hour is outside 9 to 16.
\<close>

theorem fallback_copies_agree:
  assumes "(1 \<le> dayOfWeek w \<and> dayOfWeek w \<le> 5) \<or> \<not> (9 \<le> hour w \<and> hour w \<le> 16)"
  shows "fear_greed_value (tool_generateFallbackSentiment w symb)
           = fb_fear_greed_value (generateFallbackSentiment w symb)
       \<and> tool_fallback_sentiment.sentiment (tool_generateFallbackSentiment w symb)
           = fb_sentiment (generateFallbackSentiment w symb)
       \<and> tool_fallback_sentiment.score (tool_generateFallbackSentiment w symb)
           = fb_score (generateFallbackSentiment w symb)"
proof -
  have cond: "(hour w \<ge> 9 \<and> hour w \<le> 16 \<and> dayOfWeek w \<ge> 1 \<and> dayOfWeek w \<le> 5)
                = (hour w \<ge> 9 \<and> hour w \<le> 16)"
    using assms by blast
  have conv: "tool_convertToSentiment v = convertToSentiment v" for v
    by (simp add: tool_convertToSentiment_def convertToSentiment_def)
  show ?thesis
    unfolding tool_generateFallbackSentiment_def generateFallbackSentiment_def Let_def conv cond
    by (simp only: tool_fallback_sentiment.select_convs fallback_sentiment.select_convs simp_thms)
qed

theorem fallback_copies_agree_witness:
  "1 \<le> dayOfWeek (offline_world\<lparr>now_ms := 1700044200000, hour := 10, dayOfWeek := 3\<rparr>)
   \<and> dayOfWeek (offline_world\<lparr>now_ms := 1700044200000, hour := 10, dayOfWeek := 3\<rparr>) \<le> 5
   \<and> fear_greed_value (tool_generateFallbackSentiment (offline_world\<lparr>now_ms := 1700044200000, hour := 10, dayOfWeek := 3\<rparr>) ''BTC'')
       = 31
   \<and> fb_fear_greed_value (generateFallbackSentiment (offline_world\<lparr>now_ms := 1700044200000, hour := 10, dayOfWeek := 3\<rparr>) ''BTC'')
       = 31"
  using fallback_copies_agree [of "offline_world\<lparr>now_ms := 1700044200000, hour := 10, dayOfWeek := 3\<rparr>" "''BTC''"]
  by (simp add: generateFallbackSentiment_def sample_defs Let_def)

text \<open>
  On Sunday 12 November 2023 at 10:30 the copies differ: for BTC the tool keeps the raw
  value 79 (bullish), the workflow adjusts it to 59 (neutral).
\<close>

theorem fallback_copies_agree_counterexample:
  "fear_greed_value (tool_generateFallbackSentiment (offline_world\<lparr>now_ms := 1699785000000, hour := 10\<rparr>) ''BTC'') = 79
   \<and> fb_fear_greed_value (generateFallbackSentiment (offline_world\<lparr>now_ms := 1699785000000, hour := 10\<rparr>) ''BTC'') = 59
   \<and> tool_fallback_sentiment.sentiment (tool_generateFallbackSentiment (offline_world\<lparr>now_ms := 1699785000000, hour := 10\<rparr>) ''BTC'')
       = bullish
   \<and> fb_sentiment (generateFallbackSentiment (offline_world\<lparr>now_ms := 1699785000000, hour := 10\<rparr>) ''BTC'') = neutral
   \<and> dayOfWeek (offline_world\<lparr>now_ms := 1699785000000, hour := 10\<rparr>) = 0"
  by (simp add: tool_generateFallbackSentiment_def generateFallbackSentiment_def sample_defs
      tool_convertToSentiment_def convertToSentiment_def)

subsection \<open>Facts about strings and the price fetcher\<close>

lemmas string_defs =
  trim_def toLowerCase_def toUpperCase_def lowerChar_def upperChar_def isWhiteSpace_def
  isDigit_def orElse_def optOrElse_def invalidPatterns_def envKey_def ok_def Error_def Let_def

lemma trim_Nil: "trim [] = []"
  by (simp add: trim_def)

lemma trim_all_whitespace:
  assumes "list_all isWhiteSpace s"
  shows "trim s = []"
proof -
  have d: "dropWhile isWhiteSpace s = []"
    using assms by (simp add: list_all_iff)
  show ?thesis
    unfolding trim_def d by simp
qed

lemma set_dropWhile_keeps: "c \<in> set xs \<Longrightarrow> \<not> P c \<Longrightarrow> c \<in> set (dropWhile P xs)"
  by (induction xs) auto

lemma trim_keeps: "c \<in> set s \<Longrightarrow> \<not> isWhiteSpace c \<Longrightarrow> c \<in> set (trim s)"
  by (simp add: trim_def set_dropWhile_keeps)

lemma special_cases:
  "c \<in> set (''<>{}[]/'' @ [CHR 0x5C]) \<Longrightarrow> lowerChar c = c \<and> \<not> isWhiteSpace c"
  by (auto simp add: lowerChar_def isWhiteSpace_def)

lemma digit_facts: "isDigit c \<Longrightarrow> lowerChar c = c \<and> \<not> isWhiteSpace c"
  by (auto simp add: isDigit_def lowerChar_def isWhiteSpace_def)

lemma digits_toLowerCase: "list_all isDigit s \<Longrightarrow> toLowerCase s = s"
  by (simp add: toLowerCase_def list_all_iff digit_facts map_idI)

lemma dropWhile_self: "xs \<noteq> [] \<Longrightarrow> \<not> P (hd xs) \<Longrightarrow> dropWhile P xs = xs"
  by (cases xs) simp_all

lemma digits_trim:
  assumes "s \<noteq> []" and "list_all isDigit s"
  shows "trim s = s"
proof -
  have h: "\<not> isWhiteSpace (hd s)"
    using assms by (cases s) (simp_all add: digit_facts)
  have l: "\<not> isWhiteSpace (hd (rev s))"
    using assms by (simp add: hd_rev list_all_iff digit_facts)
  show ?thesis
    using assms h l by (simp add: trim_def dropWhile_self)
qed

lemma special_survives:
  assumes "list_ex (\<lambda>c. c \<in> set (''<>{}[]/'' @ [CHR 0x5C])) s"
  shows "list_ex (\<lambda>c. c \<in> set (''<>{}[]/'' @ [CHR 0x5C])) (trim (toLowerCase s))"
proof -
  from assms obtain c where c: "c \<in> set s" "c \<in> set (''<>{}[]/'' @ [CHR 0x5C])"
    by (auto simp add: list_ex_iff)
  then have "lowerChar c \<in> set (toLowerCase s)"
    by (simp add: toLowerCase_def)
  with c have "c \<in> set (trim (toLowerCase s))"
    using special_cases [of c] by (simp add: trim_keeps)
  with c show ?thesis
    unfolding list_ex_iff by blast
qed

lemma isWhiteSpace_lowerChar: "isWhiteSpace (lowerChar c) = isWhiteSpace c"
  by (auto simp add: isWhiteSpace_def lowerChar_def)

lemma lowerChar_idem: "lowerChar (lowerChar c) = lowerChar c"
  by (simp add: lowerChar_def)

lemma toLowerCase_idem: "toLowerCase (toLowerCase s) = toLowerCase s"
  by (simp add: toLowerCase_def lowerChar_idem)

lemma toLowerCase_trim: "toLowerCase (trim s) = trim (toLowerCase s)"
proof -
  have c: "isWhiteSpace \<circ> lowerChar = isWhiteSpace"
    by (rule ext) (simp add: isWhiteSpace_lowerChar)
  show ?thesis
    by (simp add: toLowerCase_def trim_def rev_map dropWhile_map c)
qed

lemma trim_idem: "trim (trim s) = trim s"
proof -
  let ?a = "dropWhile isWhiteSpace s"
  let ?b = "dropWhile isWhiteSpace (rev ?a)"
  have "dropWhile isWhiteSpace (rev ?b) = rev ?b"
  proof (cases "?b = []")
    case True
    show ?thesis unfolding True by simp
  next
    case False
    have "rev ?a = takeWhile isWhiteSpace (rev ?a) @ ?b"
      by simp
    then have "?a = rev ?b @ rev (takeWhile isWhiteSpace (rev ?a))"
      by (metis rev_append rev_rev_ident)
    with False have h: "hd (rev ?b) = hd ?a"
      by (metis hd_append2 rev_is_Nil_conv)
    have "?a \<noteq> []"
    proof
      assume e: "?a = []"
      have "?b = []" unfolding e by simp
      with False show False by simp
    qed
    then have "\<not> isWhiteSpace (hd ?a)"
      by (rule hd_dropWhile)
    with h False show ?thesis
      by (simp add: dropWhile_self)
  qed
  then show ?thesis
    by (simp add: trim_def)
qed

lemma normalize_idem: "trim (toLowerCase (trim (toLowerCase s))) = trim (toLowerCase s)"
  by (simp add: toLowerCase_trim toLowerCase_idem trim_idem)

lemma trim_lower_nonempty:
  assumes "trim (toLowerCase s) \<noteq> []"
  shows "s \<noteq> [] \<and> trim s \<noteq> []"
proof -
  have "toLowerCase (trim s) \<noteq> []"
    using assms by (simp add: toLowerCase_trim)
  then have "trim s \<noteq> []"
    by (auto simp add: toLowerCase_def)
  then show ?thesis
    by (auto simp add: trim_Nil)
qed

lemma malformed_pattern:
  assumes "malformed s"
  shows "trim s = [] \<or> list_ex (\<lambda>pattern. pattern (trim (toLowerCase s))) invalidPatterns"
proof -
  consider "list_all isWhiteSpace s"
    | "list_ex (\<lambda>c. c \<in> set (''<>{}[]/'' @ [CHR 0x5C])) s"
    | "s \<noteq> []" "list_all isDigit s"
    using assms unfolding malformed_def by blast
  then show ?thesis
  proof cases
    case 1
    then show ?thesis by (simp add: trim_all_whitespace)
  next
    case 2
    then have "list_ex (\<lambda>c. c \<in> set (''<>{}[]/'' @ [CHR 0x5C])) (trim (toLowerCase s))"
      by (rule special_survives)
    then show ?thesis by (simp add: invalidPatterns_def)
  next
    case 3
    then have "trim (toLowerCase s) = s"
      by (simp add: digits_toLowerCase digits_trim)
    with 3 show ?thesis by (simp add: invalidPatterns_def)
  qed
qed

lemma fetchCryptoPrice_try_malformed:
  assumes "malformed (crypto_id i)"
  shows "\<exists>m \<in> {''Invalid cryptocurrency ID provided'', ''Invalid cryptocurrency symbol provided'',
               ''Invalid cryptocurrency ID format: '' @ quoted (crypto_id i)}.
           fetchCryptoPrice_try pf w (Some i) = ([], Inl (Error m))"
  using malformed_pattern [OF assms]
  by (auto simp add: fetchCryptoPrice_try_def Let_def)

lemma getCryptoPrice_try_malformed:
  assumes "malformed cid"
  shows "trim (toLowerCase cid) = []
       \<or> getPrice pf w (trim (toLowerCase cid))
           = ([], Inl (Error (''Invalid cryptocurrency ID format: '' @ quoted (trim (toLowerCase cid)))))"
proof (cases "trim (toLowerCase cid) = []")
  case True
  then show ?thesis by simp
next
  case False
  have "trim cid \<noteq> []"
  proof
    assume e: "trim cid = []"
    have "trim (toLowerCase cid) = toLowerCase (trim cid)"
      by (simp add: toLowerCase_trim)
    also have "\<dots> = []"
      unfolding e by (simp add: toLowerCase_def)
    finally show False using False by simp
  qed
  with malformed_pattern [OF assms]
  have "list_ex (\<lambda>pattern. pattern (trim (toLowerCase cid))) invalidPatterns"
    by blast
  with False show ?thesis
    by (simp add: getPrice_def Let_def normalize_idem)
qed

lemma num_gt0_iff: "x \<noteq> NaN \<Longrightarrow> \<not> num_le0 x \<Longrightarrow> num_gt0 x"
  by (cases x) simp_all

lemma fetchCryptoPrice_response_ok:
  assumes "fetchCryptoPrice_response pf i n s l resp = Inr r"
  shows "price_out.error r = None \<and> num_gt0 (parseFloat pf (price_out.priceUsd r))"
  using assms
  by (auto simp add: fetchCryptoPrice_response_def num_gt0_iff
      split: fetched.splits json.splits option.splits if_splits)

lemma getPrice_response_ok:
  assumes "getPrice_response pf cid resp = Inr r"
  shows "price_tool_out.error r = None \<and> num_gt0 (parseFloat pf (price_data.priceUsd r))"
  using assms
  by (auto simp add: getPrice_response_def num_gt0_iff
      split: fetched.splits json.splits option.splits if_splits)

lemma fetchCryptoPrice_try_ok:
  assumes "fetchCryptoPrice_try pf w inputData = (reqs, Inr r)"
  shows "price_out.error r = None \<and> num_gt0 (parseFloat pf (price_out.priceUsd r))"
  using assms
  by (auto simp add: fetchCryptoPrice_try_def Let_def fetchCryptoPrice_response_ok
      split: option.splits if_splits)

lemma getPrice_ok:
  assumes "getPrice pf w cid = (reqs, Inr r)"
  shows "price_tool_out.error r = None \<and> num_gt0 (parseFloat pf (price_data.priceUsd r))"
  using assms
  by (auto simp add: getPrice_def Let_def getPrice_response_ok
      split: option.splits if_splits sum.splits)

lemma pf_inf: "ecma_parseFloat ''Infinity'' = PosInf"
  by (simp add: ecma_parseFloat_def isWhiteSpace_def)

lemma pf_num: "ecma_parseFloat ''43000.5'' = Fin (86001 / 2)"
  by (simp add: ecma_parseFloat_def roundMagnitude_def isWhiteSpace_def isDigit_def digitsVal_def
      exponentPart_def Let_def)

lemma norm_bitcoin: "trim (toLowerCase ''bitcoin'') = ''bitcoin''"
  by (simp add: trim_def toLowerCase_def lowerChar_def isWhiteSpace_def)

lemma norm_BTC: "trim (toUpperCase ''BTC'') = ''BTC''"
  by (simp add: trim_def toUpperCase_def upperChar_def isWhiteSpace_def)

lemma bitcoin_valid: "\<not> list_ex (\<lambda>pattern. pattern ''bitcoin'') invalidPatterns"
  by (simp add: invalidPatterns_def isWhiteSpace_def isDigit_def)

subsection \<open>The price record\<close>

text \<open>
  C1, as the code has it. For every identifier, valid or not, the record that the
  workflow's price stage returns and the record that the price tool returns satisfy:
  when the error field is absent, \<^verbatim>\<open>parseFloat\<close> of \<open>priceUsd\<close> is a number
  strictly greater than 0 (not NaN; positive infinity is not excluded); when the error
  field is present, \<open>priceUsd\<close> is exactly \<open>0\<close>. This holds for any \<^verbatim>\<open>parseFloat\<close>.
\<close>

theorem price_record_contract:
  "(case price_out.error (snd (fetchCryptoPrice_execute pf w inputData)) of
      None \<Rightarrow> num_gt0 (parseFloat pf (price_out.priceUsd (snd (fetchCryptoPrice_execute pf w inputData))))
    | Some msg \<Rightarrow> price_out.priceUsd (snd (fetchCryptoPrice_execute pf w inputData)) = ''0'')
   \<and> (case price_tool_out.error (snd (getCryptoPrice_execute pf w cid)) of
      None \<Rightarrow> num_gt0 (parseFloat pf (price_data.priceUsd (snd (getCryptoPrice_execute pf w cid))))
    | Some msg \<Rightarrow> price_data.priceUsd (snd (getCryptoPrice_execute pf w cid)) = ''0'')"
proof
  obtain reqs res where t: "fetchCryptoPrice_try pf w inputData = (reqs, res)"
    by (cases "fetchCryptoPrice_try pf w inputData")
  show "case price_out.error (snd (fetchCryptoPrice_execute pf w inputData)) of
      None \<Rightarrow> num_gt0 (parseFloat pf (price_out.priceUsd (snd (fetchCryptoPrice_execute pf w inputData))))
    | Some msg \<Rightarrow> price_out.priceUsd (snd (fetchCryptoPrice_execute pf w inputData)) = ''0''"
  proof (cases res)
    case (Inl e)
    then show ?thesis by (simp add: fetchCryptoPrice_execute_def t)
  next
    case (Inr r)
    with t fetchCryptoPrice_try_ok [of pf w inputData reqs r] show ?thesis
      by (simp add: fetchCryptoPrice_execute_def)
  qed
next
  let ?n = "trim (toLowerCase cid)"
  show "case price_tool_out.error (snd (getCryptoPrice_execute pf w cid)) of
      None \<Rightarrow> num_gt0 (parseFloat pf (price_data.priceUsd (snd (getCryptoPrice_execute pf w cid))))
    | Some msg \<Rightarrow> price_data.priceUsd (snd (getCryptoPrice_execute pf w cid)) = ''0''"
  proof (cases "?n = []")
    case True
    then show ?thesis by (simp add: getCryptoPrice_execute_def)
  next
    case False
    obtain reqs res where t: "getPrice pf w ?n = (reqs, res)"
      by (cases "getPrice pf w ?n")
    show ?thesis
    proof (cases res)
      case (Inl e)
      with False t show ?thesis by (simp add: getCryptoPrice_execute_def)
    next
      case (Inr r)
      with False t getPrice_ok [of pf w ?n reqs r] show ?thesis
        by (simp add: getCryptoPrice_execute_def)
    qed
  qed
qed

theorem price_record_contract_witness:
  "price_out.error (snd (fetchCryptoPrice_execute sample_platform (rates_world ''43000.5'') (Some btc_input)))
      = None
   \<and> num_gt0 (parseFloat sample_platform
        (price_out.priceUsd (snd (fetchCryptoPrice_execute sample_platform (rates_world ''43000.5'') (Some btc_input)))))
   \<and> price_out.error (snd (fetchCryptoPrice_execute sample_platform offline_world (Some btc_input)))
      = Some ''COINCAP_API_KEY environment variable is required''
   \<and> price_out.priceUsd (snd (fetchCryptoPrice_execute sample_platform offline_world (Some btc_input)))
      = ''0''"
proof -
  have a: "price_out.error (snd (fetchCryptoPrice_execute sample_platform (rates_world ''43000.5'') (Some btc_input)))
      = None"
    by (simp add: fetchCryptoPrice_execute_def fetchCryptoPrice_try_def fetchCryptoPrice_response_def
        rates_world_def sample_defs string_defs pf_num)
  have b: "price_out.error (snd (fetchCryptoPrice_execute sample_platform offline_world (Some btc_input)))
      = Some ''COINCAP_API_KEY environment variable is required''"
    by (simp add: fetchCryptoPrice_execute_def fetchCryptoPrice_try_def
        sample_defs string_defs)
  from a b
    price_record_contract [of sample_platform "rates_world ''43000.5''" "Some btc_input"]
    price_record_contract [of sample_platform offline_world "Some btc_input"]
  show ?thesis
    by simp
qed

text \<open>
  The claim C1 as stated asks for a finite number. The code tests only for NaN and for
  \<^verbatim>\<open>price <= 0\<close>: when the provider answers with the rate \<open>Infinity\<close>, both the stage
  and the tool return it with no error, and it parses to positive infinity.
\<close>

theorem price_record_contract_counterexample:
  "price_out.error (snd (fetchCryptoPrice_execute sample_platform (rates_world ''Infinity'') (Some btc_input)))
      = None
   \<and> price_out.priceUsd (snd (fetchCryptoPrice_execute sample_platform (rates_world ''Infinity'') (Some btc_input)))
      = ''Infinity''
   \<and> \<not> num_finite (parseFloat sample_platform
        (price_out.priceUsd (snd (fetchCryptoPrice_execute sample_platform (rates_world ''Infinity'') (Some btc_input)))))
   \<and> price_tool_out.error (snd (getCryptoPrice_execute sample_platform (rates_world ''Infinity'') ''bitcoin''))
      = None
   \<and> \<not> num_finite (parseFloat sample_platform
        (price_data.priceUsd (snd (getCryptoPrice_execute sample_platform (rates_world ''Infinity'') ''bitcoin''))))"
  by (simp add: fetchCryptoPrice_execute_def fetchCryptoPrice_try_def fetchCryptoPrice_response_def
      getCryptoPrice_execute_def getPrice_def getPrice_response_def
      rates_world_def sample_defs string_defs pf_inf)

subsection \<open>A missing rates credential\<close>

text \<open>
  C3, as the code has it. When \<^verbatim>\<open>COINCAP_API_KEY\<close> is unset or empty and the
  identifier passes validation, \<^verbatim>\<open>getPrice\<close> throws
  \<open>COINCAP_API_KEY environment variable is required\<close> before any request is issued;
  the tool's \<^verbatim>\<open>execute\<close> and the workflow's stage both catch the throw and
  return, with no request issued, a record whose \<open>priceUsd\<close> is \<open>0\<close> and whose error
  field carries that message.
\<close>

theorem missing_price_credential:
  assumes "envKey (COINCAP_API_KEY w) = None"
    and "trim (toLowerCase cid) \<noteq> []"
    and "\<not> list_ex (\<lambda>pattern. pattern (trim (toLowerCase cid))) invalidPatterns"
  shows "getPrice pf w (trim (toLowerCase cid))
           = ([], Inl (Error ''COINCAP_API_KEY environment variable is required''))
       \<and> getCryptoPrice_execute pf w cid
           = ([], \<lparr>price_data.name = cid,
                   price_data.symbol = ''UNKNOWN'',
                   price_data.priceUsd = ''0'',
                   price_data.changePercent24Hr = Some ''N/A'',
                   price_tool_out.error = Some ''COINCAP_API_KEY environment variable is required''\<rparr>)
       \<and> (crypto_id i = cid \<and> trim (crypto_symbol i) \<noteq> [] \<longrightarrow>
            fetchCryptoPrice_try pf w (Some i)
              = ([], Inl (Error ''COINCAP_API_KEY environment variable is required''))
          \<and> fst (fetchCryptoPrice_execute pf w (Some i)) = []
          \<and> price_out.priceUsd (snd (fetchCryptoPrice_execute pf w (Some i))) = ''0''
          \<and> price_out.error (snd (fetchCryptoPrice_execute pf w (Some i)))
              = Some ''COINCAP_API_KEY environment variable is required'')"
proof (intro conjI impI)
  show g: "getPrice pf w (trim (toLowerCase cid))
           = ([], Inl (Error ''COINCAP_API_KEY environment variable is required''))"
    using assms by (simp add: getPrice_def Let_def normalize_idem)
  show "getCryptoPrice_execute pf w cid
           = ([], \<lparr>price_data.name = cid,
                   price_data.symbol = ''UNKNOWN'',
                   price_data.priceUsd = ''0'',
                   price_data.changePercent24Hr = Some ''N/A'',
                   price_tool_out.error = Some ''COINCAP_API_KEY environment variable is required''\<rparr>)"
    using assms(2) by (simp add: getCryptoPrice_execute_def g Error_def)
next
  assume a: "crypto_id i = cid \<and> trim (crypto_symbol i) \<noteq> []"
  have s: "crypto_symbol i \<noteq> []"
    using a by (auto simp add: trim_Nil)
  have c: "crypto_id i \<noteq> [] \<and> trim (crypto_id i) \<noteq> []"
    using a assms(2) trim_lower_nonempty [of cid] by simp
  show t: "fetchCryptoPrice_try pf w (Some i)
              = ([], Inl (Error ''COINCAP_API_KEY environment variable is required''))"
    using a s c assms by (simp add: fetchCryptoPrice_try_def Let_def)
  show "fst (fetchCryptoPrice_execute pf w (Some i)) = []"
    by (simp add: fetchCryptoPrice_execute_def t)
  show "price_out.priceUsd (snd (fetchCryptoPrice_execute pf w (Some i))) = ''0''"
    by (simp add: fetchCryptoPrice_execute_def t)
  show "price_out.error (snd (fetchCryptoPrice_execute pf w (Some i)))
              = Some ''COINCAP_API_KEY environment variable is required''"
    by (simp add: fetchCryptoPrice_execute_def t Error_def)
qed

theorem missing_price_credential_witness:
  "envKey (COINCAP_API_KEY offline_world) = None
   \<and> trim (toLowerCase ''bitcoin'') \<noteq> []
   \<and> getPrice sample_platform offline_world ''bitcoin''
       = ([], Inl (Error ''COINCAP_API_KEY environment variable is required''))
   \<and> price_out.priceUsd (snd (fetchCryptoPrice_execute sample_platform offline_world (Some btc_input)))
       = ''0''"
proof -
  have k: "envKey (COINCAP_API_KEY offline_world) = None"
    by (simp add: sample_defs envKey_def)
  have n: "trim (toLowerCase ''bitcoin'') \<noteq> []"
    by (simp add: norm_bitcoin)
  have v: "\<not> list_ex (\<lambda>pattern. pattern (trim (toLowerCase ''bitcoin''))) invalidPatterns"
    by (simp add: norm_bitcoin bitcoin_valid)
  have i: "crypto_id btc_input = ''bitcoin'' \<and> trim (crypto_symbol btc_input) \<noteq> []"
    by (simp add: btc_input_def trim_def isWhiteSpace_def)
  from missing_price_credential [OF k n v, of sample_platform btc_input] i k
  show ?thesis
    by (simp add: norm_bitcoin)
qed

text \<open>
  The claim C3 as stated says the missing credential aborts the call and is not turned
  into a zero-price record with an error field. With no credential set, stage and tool
  return exactly such a record for bitcoin, and the workflow runs on to a report.
\<close>

theorem missing_price_credential_counterexample:
  "envKey (COINCAP_API_KEY offline_world) = None
   \<and> fetchCryptoPrice_execute sample_platform offline_world (Some btc_input)
       = ([], \<lparr>crypto_id = ''bitcoin'', crypto_symbol = ''BTC'', news_limit = 3,
               price_out.name = ''bitcoin'', price_out.symbol = ''BTC'',
               price_out.priceUsd = ''0'', price_out.changePercent24Hr = Some ''N/A'',
               price_out.error = Some ''COINCAP_API_KEY environment variable is required''\<rparr>)
   \<and> getCryptoPrice_execute sample_platform offline_world ''bitcoin''
       = ([], \<lparr>price_data.name = ''bitcoin'',
               price_data.symbol = ''UNKNOWN'',
               price_data.priceUsd = ''0'',
               price_data.changePercent24Hr = Some ''N/A'',
               price_tool_out.error = Some ''COINCAP_API_KEY environment variable is required''\<rparr>)
   \<and> \<not> isl (snd (cryptoAnalysisWorkflow sample_platform offline_world btc_input))"
  by (simp add: fetchCryptoPrice_execute_def fetchCryptoPrice_try_def
      getCryptoPrice_execute_def getPrice_def
      cryptoAnalysisWorkflow_def stage1_def stage2_def stage3_def
      fetchSentimentScore_execute_def fetchSentimentScore_try_def
      fetchCryptoNews_execute_def compileAnalysis_execute_def
      price_out.defs sentiment_out.defs
      sample_defs string_defs)

subsection \<open>Malformed identifiers\<close>

text \<open>
  C9, as the code has it. For every malformed identifier (empty or white space only,
  containing one of \<^verbatim>\<open>< > { } [ ] \ /\<close>, or digits only) the price stage and the
  price tool issue no request and return a record with \<open>priceUsd\<close> \<open>0\<close> whose error
  is one of the validation messages; the rejection is made by the stage itself, as a
  returned record.
\<close>

theorem malformed_identifier_rejected:
  assumes "malformed (crypto_id i)"
  shows "fst (fetchCryptoPrice_execute pf w (Some i)) = []
       \<and> price_out.priceUsd (snd (fetchCryptoPrice_execute pf w (Some i))) = ''0''
       \<and> price_out.error (snd (fetchCryptoPrice_execute pf w (Some i)))
           \<in> {Some ''Invalid cryptocurrency ID provided'',
              Some ''Invalid cryptocurrency symbol provided'',
              Some (''Invalid cryptocurrency ID format: '' @ quoted (crypto_id i))}
       \<and> fst (getCryptoPrice_execute pf w (crypto_id i)) = []
       \<and> price_data.priceUsd (snd (getCryptoPrice_execute pf w (crypto_id i))) = ''0''
       \<and> price_tool_out.error (snd (getCryptoPrice_execute pf w (crypto_id i)))
           \<in> {Some ''Cryptocurrency ID cannot be empty or whitespace only'',
              Some (''Invalid cryptocurrency ID format: ''
                      @ quoted (trim (toLowerCase (crypto_id i))))}"
proof -
  obtain m where m: "fetchCryptoPrice_try pf w (Some i) = ([], Inl (Error m))"
    "m \<in> {''Invalid cryptocurrency ID provided'', ''Invalid cryptocurrency symbol provided'',
               ''Invalid cryptocurrency ID format: '' @ quoted (crypto_id i)}"
    using fetchCryptoPrice_try_malformed [OF assms, of pf w] by blast
  have stage: "fst (fetchCryptoPrice_execute pf w (Some i)) = []
       \<and> price_out.priceUsd (snd (fetchCryptoPrice_execute pf w (Some i))) = ''0''
       \<and> price_out.error (snd (fetchCryptoPrice_execute pf w (Some i))) = Some m"
    by (simp add: fetchCryptoPrice_execute_def m(1) Error_def)
  have tool: "fst (getCryptoPrice_execute pf w (crypto_id i)) = []
       \<and> price_data.priceUsd (snd (getCryptoPrice_execute pf w (crypto_id i))) = ''0''
       \<and> price_tool_out.error (snd (getCryptoPrice_execute pf w (crypto_id i)))
           \<in> {Some ''Cryptocurrency ID cannot be empty or whitespace only'',
              Some (''Invalid cryptocurrency ID format: ''
                      @ quoted (trim (toLowerCase (crypto_id i))))}"
    using getCryptoPrice_try_malformed [OF assms, of pf w]
    by (auto simp add: getCryptoPrice_execute_def Let_def Error_def)
  from stage tool m(2) show ?thesis by blast
qed

theorem malformed_identifier_rejected_witness:
  "malformed (crypto_id etc_input)
   \<and> fst (fetchCryptoPrice_execute sample_platform keyed_world (Some etc_input)) = []
   \<and> price_out.error (snd (fetchCryptoPrice_execute sample_platform keyed_world (Some etc_input)))
       = Some (''Invalid cryptocurrency ID format: '' @ quoted ''../etc'')"
proof -
  have m: "malformed (crypto_id etc_input)"
    by (simp add: malformed_def etc_input_def)
  have e: "price_out.error (snd (fetchCryptoPrice_execute sample_platform keyed_world (Some etc_input)))
       = Some (''Invalid cryptocurrency ID format: '' @ quoted ''../etc'')"
    by (simp add: fetchCryptoPrice_execute_def fetchCryptoPrice_try_def etc_input_def Let_def
        trim_def toLowerCase_def lowerChar_def isWhiteSpace_def invalidPatterns_def Error_def)
  have f: "fst (fetchCryptoPrice_execute sample_platform keyed_world (Some etc_input)) = []"
    using malformed_identifier_rejected [OF m, of sample_platform keyed_world] by blast
  show ?thesis
    by (intro conjI m f e)
qed

text \<open>
  The claim C9 as stated says the request is rejected before stage 1 runs and before any
  network call. The identifier \<open>../etc\<close> satisfies the step's input schema; stage 1
  runs and returns its zero-price record; the workflow then calls the sentiment and the
  news provider, the latter with the malformed identifier in its query, and ends with a
  report.
\<close>

theorem malformed_identifier_rejected_counterexample:
  "fetchCryptoPrice_inputSchema etc_input
   \<and> malformed (crypto_id etc_input)
   \<and> price_out.priceUsd (stage1 sample_platform keyed_world etc_input) = ''0''
   \<and> fst (cryptoAnalysisWorkflow sample_platform keyed_world etc_input)
       = [FearGreedGet ''k2'', NewsGet ''../etc cryptocurrency'' 3 ''k3'']
   \<and> \<not> isl (snd (cryptoAnalysisWorkflow sample_platform keyed_world etc_input))"
  by (simp add: fetchCryptoPrice_inputSchema_def malformed_def etc_input_def
      fetchCryptoPrice_execute_def fetchCryptoPrice_try_def
      cryptoAnalysisWorkflow_def stage1_def stage2_def stage3_def
      fetchSentimentScore_execute_def fetchSentimentScore_try_def fetchSentimentScore_response_def
      fetchCryptoNews_execute_def fetchCryptoNews_articles_def compileAnalysis_execute_def
      price_out.defs sentiment_out.defs
      sample_defs string_defs)

subsection \<open>The news stage of the workflow\<close>

lemma fetchCryptoNews_articles_failed:
  "news_call_failed resp \<Longrightarrow> fetchCryptoNews_articles resp = []"
  by (auto simp add: news_call_failed_def fetchCryptoNews_articles_def
      split: fetched.splits json.splits option.splits)

text \<open>
  C7. Given its input, the workflow's news stage never throws: it returns a record of
  exactly three parts, the price data and the sentiment data copied from its input and
  the article list, with no error field. When the news credential is unset or empty it
  issues no request and the list is empty; when the provider call fails (the fetch
  throws or the status is not a success) or the parse fails (the body is not JSON, has
  no article array, or an article has no source) the list is empty.
\<close>

theorem news_stage_never_fails:
  "\<not> isl (snd (fetchCryptoNews_execute w (Some i)))
   \<and> snd (fetchCryptoNews_execute w (Some i))
       = Inr \<lparr>priceData =
                \<lparr>price_data.name = price_out.name i,
                 price_data.symbol = price_out.symbol i,
                 price_data.priceUsd = price_out.priceUsd i,
                 price_data.changePercent24Hr = price_out.changePercent24Hr i\<rparr>,
              sentimentData =
                \<lparr>sentiment_data.sentiment = sentiment_out.sentiment i,
                 sentiment_data.score = sentiment_out.score i,
                 sentiment_data.fearGreedValue = sentiment_out.fearGreedValue i,
                 sentiment_data.classification = sentiment_out.classification i\<rparr>,
              news_out.articles = news_out.articles (projr (snd (fetchCryptoNews_execute w (Some i))))\<rparr>
   \<and> (envKey (NEWS_API_KEY w) = None \<longrightarrow>
        fst (fetchCryptoNews_execute w (Some i)) = []
      \<and> news_out.articles (projr (snd (fetchCryptoNews_execute w (Some i)))) = [])
   \<and> (envKey (NEWS_API_KEY w) = Some k
        \<and> news_call_failed (http_news_wf w (crypto_id i @ '' cryptocurrency'') (news_limit i) k) \<longrightarrow>
        news_out.articles (projr (snd (fetchCryptoNews_execute w (Some i)))) = [])"
  by (simp add: fetchCryptoNews_execute_def Let_def fetchCryptoNews_articles_failed
      split: option.splits)

theorem news_stage_never_fails_witness:
  "envKey (NEWS_API_KEY offline_world) = None
   \<and> fetchCryptoNews_execute offline_world (Some btc_sentiment)
       = ([], Inr \<lparr>priceData =
                     \<lparr>price_data.name = ''bitcoin'', price_data.symbol = ''BTC'',
                      price_data.priceUsd = ''43000.5'',
                      price_data.changePercent24Hr = Some ''N/A''\<rparr>,
                   sentimentData =
                     \<lparr>sentiment_data.sentiment = neutral, sentiment_data.score = 0,
                      sentiment_data.fearGreedValue = 50,
                      sentiment_data.classification = ''Neutral''\<rparr>,
                   news_out.articles = []\<rparr>)
   \<and> envKey (NEWS_API_KEY keyed_world) = Some ''k3''
   \<and> news_call_failed (http_news_wf keyed_world (crypto_id btc_sentiment @ '' cryptocurrency'')
         (news_limit btc_sentiment) ''k3'')
   \<and> news_out.articles (projr (snd (fetchCryptoNews_execute keyed_world (Some btc_sentiment)))) = []"
proof -
  have a: "envKey (NEWS_API_KEY offline_world) = None"
    by (simp add: sample_defs envKey_def)
  have b: "envKey (NEWS_API_KEY keyed_world) = Some ''k3''"
    by (simp add: sample_defs envKey_def)
  have c: "news_call_failed (http_news_wf keyed_world (crypto_id btc_sentiment @ '' cryptocurrency'')
         (news_limit btc_sentiment) ''k3'')"
    by (simp add: sample_defs news_call_failed_def)
  have d: "fetchCryptoNews_execute offline_world (Some btc_sentiment)
       = ([], Inr \<lparr>priceData =
                     \<lparr>price_data.name = ''bitcoin'', price_data.symbol = ''BTC'',
                      price_data.priceUsd = ''43000.5'',
                      price_data.changePercent24Hr = Some ''N/A''\<rparr>,
                   sentimentData =
                     \<lparr>sentiment_data.sentiment = neutral, sentiment_data.score = 0,
                      sentiment_data.fearGreedValue = 50,
                      sentiment_data.classification = ''Neutral''\<rparr>,
                   news_out.articles = []\<rparr>)"
    by (simp add: fetchCryptoNews_execute_def btc_sentiment_def sample_defs envKey_def
        price_out.defs sentiment_out.defs)
  have e: "news_out.articles (projr (snd (fetchCryptoNews_execute keyed_world (Some btc_sentiment)))) = []"
    using news_stage_never_fails [of keyed_world btc_sentiment "''k3''"] b c by blast
  show ?thesis
    by (intro conjI a b c d e)
qed

subsection \<open>What the stages carry forward\<close>

lemmas stage_defs =
  fetchCryptoPrice_execute_def fetchCryptoPrice_try_def fetchCryptoPrice_response_def
  cryptoAnalysisWorkflow_def stage1_def stage2_def stage3_def
  fetchSentimentScore_execute_def fetchSentimentScore_try_def fetchSentimentScore_response_def
  generateFallbackSentiment_def convertToSentiment_def
  fetchCryptoNews_execute_def fetchCryptoNews_articles_def compileAnalysis_execute_def
  price_out.defs sentiment_out.defs

lemma stage3_eq:
  "stage3 pf w i
     = Inr \<lparr>priceData =
              \<lparr>price_data.name = price_out.name (stage2 pf w i),
               price_data.symbol = price_out.symbol (stage2 pf w i),
               price_data.priceUsd = price_out.priceUsd (stage2 pf w i),
               price_data.changePercent24Hr = price_out.changePercent24Hr (stage2 pf w i)\<rparr>,
            sentimentData =
              \<lparr>sentiment_data.sentiment = sentiment_out.sentiment (stage2 pf w i),
               sentiment_data.score = sentiment_out.score (stage2 pf w i),
               sentiment_data.fearGreedValue = sentiment_out.fearGreedValue (stage2 pf w i),
               sentiment_data.classification = sentiment_out.classification (stage2 pf w i)\<rparr>,
            news_out.articles = news_out.articles (projr (stage3 pf w i))\<rparr>"
  by (simp add: stage3_def fetchCryptoNews_execute_def Let_def)

lemma fetchSentimentScore_response_keeps:
  "fetchSentimentScore_response pf p resp = Inr s \<Longrightarrow>
     price_out.truncate s = p \<and> price_error s = price_out.error p"
  by (auto simp add: fetchSentimentScore_response_def price_out.defs sentiment_out.defs
      split: fetched.splits json.splits option.splits if_splits list.splits)

lemma fetchSentimentScore_try_keeps:
  assumes "fetchSentimentScore_try pf w p = (reqs, Inr s)"
  shows "price_out.truncate s = p \<and> price_error s = price_out.error p"
proof (cases "envKey (COINMARKETCAP_API_KEY w)")
  case None
  with assms show ?thesis
    by (auto simp add: fetchSentimentScore_try_def price_out.defs sentiment_out.defs
        split: if_splits)
next
  case (Some k)
  with assms have "fetchSentimentScore_response pf p (http_feargreed w k) = Inr s"
    by (simp add: fetchSentimentScore_try_def split: if_splits)
  then show ?thesis
    by (rule fetchSentimentScore_response_keeps)
qed

lemma fetchSentimentScore_execute_keeps:
  "price_out.truncate (snd (fetchSentimentScore_execute pf w p)) = p
   \<and> price_error (snd (fetchSentimentScore_execute pf w p)) = price_out.error p"
proof -
  obtain reqs res where t: "fetchSentimentScore_try pf w p = (reqs, res)"
    by (cases "fetchSentimentScore_try pf w p")
  show ?thesis
  proof (cases res)
    case (Inl e)
    with t show ?thesis
      by (simp add: fetchSentimentScore_execute_def Let_def price_out.defs sentiment_out.defs)
  next
    case (Inr s)
    with t fetchSentimentScore_try_keeps [of pf w p reqs s] show ?thesis
      by (simp add: fetchSentimentScore_execute_def)
  qed
qed

text \<open>
  C6, as the code has it. The sentiment stage returns every field of the price stage's
  record unchanged and adds its own, with the price stage's error copied into
  \<open>price_error\<close>. The news stage and the compiler carry the values of name, symbol,
  price, change, sentiment, score, fear-greed value and classification on unchanged, and
  the compiler every article of the news stage with its title, description, URL, date
  and source, in order; the run ends without a report only when the language model
  call throws. The news stage does not carry the error fields on: its
  result is the same whatever \<open>error\<close>, \<open>price_error\<close> and \<open>sentiment_error\<close> hold.
\<close>

theorem stages_carry_values_forward:
  "price_out.truncate (stage2 pf w i) = stage1 pf w i
   \<and> price_error (stage2 pf w i) = price_out.error (stage1 pf w i)
   \<and> \<not> isl (stage3 pf w i)
   \<and> priceData (projr (stage3 pf w i))
       = \<lparr>price_data.name = price_out.name (stage1 pf w i),
          price_data.symbol = price_out.symbol (stage1 pf w i),
          price_data.priceUsd = price_out.priceUsd (stage1 pf w i),
          price_data.changePercent24Hr = price_out.changePercent24Hr (stage1 pf w i)\<rparr>
   \<and> sentimentData (projr (stage3 pf w i))
       = \<lparr>sentiment_data.sentiment = sentiment_out.sentiment (stage2 pf w i),
          sentiment_data.score = sentiment_out.score (stage2 pf w i),
          sentiment_data.fearGreedValue = sentiment_out.fearGreedValue (stage2 pf w i),
          sentiment_data.classification = sentiment_out.classification (stage2 pf w i)\<rparr>
   \<and> (case snd (cryptoAnalysisWorkflow pf w i) of
         Inl e \<Rightarrow> agent_stream w (projr (stage3 pf w i)) = Inl e
       | Inr r \<Rightarrow>
           crypto_info r
             = \<lparr>crypto_info.name = price_out.name (stage1 pf w i),
                crypto_info.symbol = price_out.symbol (stage1 pf w i),
                price_usd = price_out.priceUsd (stage1 pf w i),
                change_24h = price_out.changePercent24Hr (stage1 pf w i)\<rparr>
         \<and> sentiment_analysis r
             = \<lparr>sentiment_analysis.sentiment = sentiment_out.sentiment (stage2 pf w i),
                sentiment_analysis.score = sentiment_out.score (stage2 pf w i),
                sentiment_analysis.fear_greed_value = sentiment_out.fearGreedValue (stage2 pf w i),
                sentiment_analysis.classification = sentiment_out.classification (stage2 pf w i)\<rparr>
         \<and> latest_news r
             = map (\<lambda>a. \<lparr>latest_news_item.title = article.title a,
                          latest_news_item.description = article.description a,
                          latest_news_item.url = article.url a,
                          published_at = article.publishedAt a,
                          latest_news_item.source = article.source a\<rparr>)
                 (news_out.articles (projr (stage3 pf w i))))
   \<and> fetchCryptoNews_execute w (Some (s\<lparr>price_out.error := e1, price_error := e2, sentiment_error := e3\<rparr>))
       = fetchCryptoNews_execute w (Some s)"
proof -
  have k: "price_out.truncate (stage2 pf w i) = stage1 pf w i
           \<and> price_error (stage2 pf w i) = price_out.error (stage1 pf w i)"
    unfolding stage2_def by (rule fetchSentimentScore_execute_keeps)
  then have f: "price_out.name (stage2 pf w i) = price_out.name (stage1 pf w i)
      \<and> price_out.symbol (stage2 pf w i) = price_out.symbol (stage1 pf w i)
      \<and> price_out.priceUsd (stage2 pf w i) = price_out.priceUsd (stage1 pf w i)
      \<and> price_out.changePercent24Hr (stage2 pf w i) = price_out.changePercent24Hr (stage1 pf w i)"
    by (metis price_out.defs(4) price_out.select_convs(1-4) price_out.surjective sentiment_out.surjective)
  have s3: "\<not> isl (stage3 pf w i)"
    by (subst stage3_eq) simp
  have p: "priceData (projr (stage3 pf w i))
       = \<lparr>price_data.name = price_out.name (stage1 pf w i),
          price_data.symbol = price_out.symbol (stage1 pf w i),
          price_data.priceUsd = price_out.priceUsd (stage1 pf w i),
          price_data.changePercent24Hr = price_out.changePercent24Hr (stage1 pf w i)\<rparr>"
    by (subst stage3_eq) (simp add: f)
  have sd: "sentimentData (projr (stage3 pf w i))
       = \<lparr>sentiment_data.sentiment = sentiment_out.sentiment (stage2 pf w i),
          sentiment_data.score = sentiment_out.score (stage2 pf w i),
          sentiment_data.fearGreedValue = sentiment_out.fearGreedValue (stage2 pf w i),
          sentiment_data.classification = sentiment_out.classification (stage2 pf w i)\<rparr>"
    by (subst stage3_eq) simp
  obtain n where n: "stage3 pf w i = Inr n"
    using s3 by (cases "stage3 pf w i") simp_all
  have wf: "snd (cryptoAnalysisWorkflow pf w i) = compileAnalysis_execute pf w (Some n)"
    by (simp add: cryptoAnalysisWorkflow_def Let_def n)
  from p sd n have pn: "priceData n = \<lparr>price_data.name = price_out.name (stage1 pf w i),
          price_data.symbol = price_out.symbol (stage1 pf w i),
          price_data.priceUsd = price_out.priceUsd (stage1 pf w i),
          price_data.changePercent24Hr = price_out.changePercent24Hr (stage1 pf w i)\<rparr>"
    and sn: "sentimentData n = \<lparr>sentiment_data.sentiment = sentiment_out.sentiment (stage2 pf w i),
          sentiment_data.score = sentiment_out.score (stage2 pf w i),
          sentiment_data.fearGreedValue = sentiment_out.fearGreedValue (stage2 pf w i),
          sentiment_data.classification = sentiment_out.classification (stage2 pf w i)\<rparr>"
    by simp_all
  have rep: "case snd (cryptoAnalysisWorkflow pf w i) of
         Inl e \<Rightarrow> agent_stream w (projr (stage3 pf w i)) = Inl e
       | Inr r \<Rightarrow>
           crypto_info r
             = \<lparr>crypto_info.name = price_out.name (stage1 pf w i),
                crypto_info.symbol = price_out.symbol (stage1 pf w i),
                price_usd = price_out.priceUsd (stage1 pf w i),
                change_24h = price_out.changePercent24Hr (stage1 pf w i)\<rparr>
         \<and> sentiment_analysis r
             = \<lparr>sentiment_analysis.sentiment = sentiment_out.sentiment (stage2 pf w i),
                sentiment_analysis.score = sentiment_out.score (stage2 pf w i),
                sentiment_analysis.fear_greed_value = sentiment_out.fearGreedValue (stage2 pf w i),
                sentiment_analysis.classification = sentiment_out.classification (stage2 pf w i)\<rparr>
         \<and> latest_news r
             = map (\<lambda>a. \<lparr>latest_news_item.title = article.title a,
                          latest_news_item.description = article.description a,
                          latest_news_item.url = article.url a,
                          published_at = article.publishedAt a,
                          latest_news_item.source = article.source a\<rparr>)
                 (news_out.articles (projr (stage3 pf w i)))"
    by (cases "agent_stream w n") (simp_all add: wf compileAnalysis_execute_def n pn sn)
  have dr: "fetchCryptoNews_execute w (Some (s\<lparr>price_out.error := e1, price_error := e2, sentiment_error := e3\<rparr>))
       = fetchCryptoNews_execute w (Some s)"
    by (simp add: fetchCryptoNews_execute_def Let_def split: option.splits)
  show ?thesis
    by (intro conjI k [THEN conjunct1] k [THEN conjunct2] s3 p sd rep dr)
qed

theorem stages_carry_values_forward_witness:
  "price_out.error (stage1 sample_platform offline_world btc_input)
      = Some ''COINCAP_API_KEY environment variable is required''
   \<and> price_error (stage2 sample_platform offline_world btc_input)
      = Some ''COINCAP_API_KEY environment variable is required''
   \<and> price_usd (crypto_info (projr (snd (cryptoAnalysisWorkflow sample_platform offline_world btc_input))))
      = ''0''"
proof -
  have a: "price_out.error (stage1 sample_platform offline_world btc_input)
      = Some ''COINCAP_API_KEY environment variable is required''"
    by (simp add: stage_defs sample_defs string_defs)
  have b: "price_out.priceUsd (stage1 sample_platform offline_world btc_input) = ''0''"
    by (simp add: stage_defs sample_defs string_defs)
  have c: "\<not> isl (snd (cryptoAnalysisWorkflow sample_platform offline_world btc_input))"
    by (simp add: stage_defs sample_defs string_defs)
  then obtain r where r: "snd (cryptoAnalysisWorkflow sample_platform offline_world btc_input) = Inr r"
    by (cases "snd (cryptoAnalysisWorkflow sample_platform offline_world btc_input)") simp_all
  from stages_carry_values_forward [of sample_platform offline_world btc_input] a b r
  show ?thesis
    by simp
qed

text \<open>
  The claim C6 as stated says the error fields reach the final report. A run whose
  rates provider answers 404 and a run whose rates provider answers 429 differ in
  \<open>price_error\<close> after stage 2, yet the news stage returns the same record for both
  and the two final reports are equal; the report has no error field.
\<close>

theorem stages_carry_values_forward_counterexample:
  "price_error (stage2 sample_platform (rates_status_world 404) btc_input)
      = Some (''Cryptocurrency '' @ quoted ''bitcoin''
               @ '' not found. Please verify the cryptocurrency identifier.'')
   \<and> price_error (stage2 sample_platform (rates_status_world 429) btc_input)
      = Some ''Rate limit exceeded. Please try again in a few moments.''
   \<and> sentiment_error (stage2 sample_platform (rates_status_world 404) btc_input)
      = Some ''fetch failed''
   \<and> stage3 sample_platform (rates_status_world 404) btc_input
      = stage3 sample_platform (rates_status_world 429) btc_input
   \<and> snd (cryptoAnalysisWorkflow sample_platform (rates_status_world 404) btc_input)
      = snd (cryptoAnalysisWorkflow sample_platform (rates_status_world 429) btc_input)
   \<and> snd (cryptoAnalysisWorkflow sample_platform (rates_status_world 404) btc_input)
      = Inr \<lparr>analysis_report.analysis = ''report'',
             crypto_info =
               \<lparr>crypto_info.name = ''bitcoin'', crypto_info.symbol = ''BTC'',
                price_usd = ''0'', change_24h = Some ''N/A''\<rparr>,
             sentiment_analysis =
               \<lparr>sentiment_analysis.sentiment = bullish,
                sentiment_analysis.score = 39 / 50,
                sentiment_analysis.fear_greed_value = 89,
                sentiment_analysis.classification = ''Neutral (Fallback)''\<rparr>,
             latest_news = [],
             timestamp = ''1699821000000''\<rparr>"
  by (simp add: stage_defs rates_status_world_def sample_defs string_defs
      sample_toISOString_def digitChar_def)

subsection \<open>Sanitizing fetched news\<close>

lemmas news_defs =
  news_world_def old_news_body_def old_article_def long_title_def

lemma sanitizeArticle_facts:
  "length (article.title (sanitizeArticle pf w a)) \<le> 200
   \<and> (ra_title a = Some t \<and> length t > 200 \<longrightarrow>
        article.title (sanitizeArticle pf w a) = take 200 t
      \<and> length (article.title (sanitizeArticle pf w a)) = 200)
   \<and> (\<not> isValidUrl pf (ra_url a) \<longrightarrow> article.url (sanitizeArticle pf w a) = ''#'')
   \<and> (isValidUrl pf (ra_url a) \<longrightarrow> Some (article.url (sanitizeArticle pf w a)) = ra_url a)
   \<and> (\<not> isValidDate pf (ra_publishedAt a) \<longrightarrow>
        article.publishedAt (sanitizeArticle pf w a) = toISOString pf (int (now_ms w)))
   \<and> (isValidDate pf (ra_publishedAt a) \<longrightarrow>
        Some (article.publishedAt (sanitizeArticle pf w a)) = ra_publishedAt a)"
  by (auto simp add: sanitizeArticle_def optOrElse_def orElse_def isValidUrl_def isValidDate_def
      split: option.splits)

lemma isValidUrl_iff:
  "isValidUrl pf (Some u) = (u \<noteq> [] \<and> urlProtocol pf u \<in> {Some ''http:'', Some ''https:''})"
  by (auto simp add: isValidUrl_def split: option.splits)

lemma isValidDate_iff:
  "isValidDate pf (Some s) = (s \<noteq> [] \<and> (\<exists>y. dateFullYear pf s = Some y \<and> y > 2000))"
  by (auto simp add: isValidDate_def split: option.splits)

lemma fetchCryptoNews_live_articles:
  assumes "fetchCryptoNews_live pf w limit (Response st txt (Json (Some d))) = Inr r"
    and "nb_articles d = Some arts"
  shows "news_tool_out.articles r
           = map (sanitizeArticle pf w) (take (nat \<lfloor>limit\<rfloor>) (List.map_filter (\<lambda>a. a) arts))"
  using assms
  by (auto simp add: fetchCryptoNews_live_def Let_def split: if_splits)

text \<open>
  C8, as the code has it. In the news tool, the articles of a live answer are the
  fetched articles, cut to the limit, each passed through \<open>sanitizeArticle\<close>: a title
  is at most 200 characters, and one longer than 200 is cut to exactly its first 200; a
  URL whose protocol is not \<open>http:\<close> or \<open>https:\<close> (or that does not parse) becomes
  \<open>#\<close>, any other non-empty one is kept; a date that does not parse or whose year is
  2000 or earlier becomes the current time, any other non-empty one is kept.
\<close>

theorem news_tool_sanitization:
  assumes "fetchCryptoNews_live pf w limit (Response st txt (Json (Some d))) = Inr r"
    and "nb_articles d = Some arts"
  shows "news_tool_out.articles r
           = map (sanitizeArticle pf w) (take (nat \<lfloor>limit\<rfloor>) (List.map_filter (\<lambda>a. a) arts))
       \<and> length (article.title (sanitizeArticle pf w a)) \<le> 200
       \<and> (ra_title a = Some t \<and> length t > 200 \<longrightarrow>
            article.title (sanitizeArticle pf w a) = take 200 t
          \<and> length (article.title (sanitizeArticle pf w a)) = 200)
       \<and> (ra_url a = Some u \<and> urlProtocol pf u \<notin> {Some ''http:'', Some ''https:''} \<longrightarrow>
            article.url (sanitizeArticle pf w a) = ''#'')
       \<and> (ra_url a = Some u \<and> u \<noteq> [] \<and> urlProtocol pf u \<in> {Some ''http:'', Some ''https:''} \<longrightarrow>
            article.url (sanitizeArticle pf w a) = u)
       \<and> (ra_publishedAt a = Some p \<and> (dateFullYear pf p = None \<or> (\<exists>y. dateFullYear pf p = Some y \<and> y \<le> 2000)) \<longrightarrow>
            article.publishedAt (sanitizeArticle pf w a) = toISOString pf (int (now_ms w)))
       \<and> (ra_publishedAt a = Some p \<and> p \<noteq> [] \<and> (\<exists>y. dateFullYear pf p = Some y \<and> y > 2000) \<longrightarrow>
            article.publishedAt (sanitizeArticle pf w a) = p)"
proof (intro conjI impI)
  show "news_tool_out.articles r
           = map (sanitizeArticle pf w) (take (nat \<lfloor>limit\<rfloor>) (List.map_filter (\<lambda>a. a) arts))"
    using assms by (rule fetchCryptoNews_live_articles)
  show "length (article.title (sanitizeArticle pf w a)) \<le> 200"
    using sanitizeArticle_facts by blast
next
  assume "ra_title a = Some t \<and> length t > 200"
  then show "article.title (sanitizeArticle pf w a) = take 200 t"
    and "length (article.title (sanitizeArticle pf w a)) = 200"
    using sanitizeArticle_facts [of pf w a t] by blast+
next
  assume "ra_url a = Some u \<and> urlProtocol pf u \<notin> {Some ''http:'', Some ''https:''}"
  then have "\<not> isValidUrl pf (ra_url a)"
    by (simp add: isValidUrl_iff)
  then show "article.url (sanitizeArticle pf w a) = ''#''"
    using sanitizeArticle_facts [of pf w a] by blast
next
  assume h: "ra_url a = Some u \<and> u \<noteq> [] \<and> urlProtocol pf u \<in> {Some ''http:'', Some ''https:''}"
  then have "isValidUrl pf (ra_url a)"
    by (simp add: isValidUrl_iff)
  then have "Some (article.url (sanitizeArticle pf w a)) = ra_url a"
    using sanitizeArticle_facts [of pf w a] by blast
  with h show "article.url (sanitizeArticle pf w a) = u"
    by simp
next
  assume "ra_publishedAt a = Some p
        \<and> (dateFullYear pf p = None \<or> (\<exists>y. dateFullYear pf p = Some y \<and> y \<le> 2000))"
  then have "\<not> isValidDate pf (ra_publishedAt a)"
    by (auto simp add: isValidDate_iff)
  then show "article.publishedAt (sanitizeArticle pf w a) = toISOString pf (int (now_ms w))"
    using sanitizeArticle_facts [of pf w a] by blast
next
  assume h: "ra_publishedAt a = Some p \<and> p \<noteq> [] \<and> (\<exists>y. dateFullYear pf p = Some y \<and> y > 2000)"
  then have "isValidDate pf (ra_publishedAt a)"
    by (simp add: isValidDate_iff)
  then have "Some (article.publishedAt (sanitizeArticle pf w a)) = ra_publishedAt a"
    using sanitizeArticle_facts [of pf w a] by blast
  with h show "article.publishedAt (sanitizeArticle pf w a) = p"
    by simp
qed

theorem news_tool_sanitization_witness:
  "fetchCryptoNews_live sample_platform news_world 5 (Response 200 ''OK'' (Json (Some old_news_body)))
      = Inr \<lparr>news_tool_out.articles =
               [\<lparr>article.title = replicate 200 (CHR ''a''),
                 article.description = ''No description available'',
                 article.url = ''#'',
                 article.publishedAt = ''1699821000000'',
                 article.source = ''Example''\<rparr>],
             news_tool_out.error = None,
             news_tool_out.source = Some ''NewsAPI''\<rparr>
   \<and> nb_articles old_news_body = Some [Some old_article]
   \<and> ra_title old_article = Some long_title
   \<and> length long_title > 200
   \<and> article.title (sanitizeArticle sample_platform news_world old_article) = take 200 long_title
   \<and> ra_url old_article = Some ''not-a-url''
   \<and> urlProtocol sample_platform ''not-a-url'' = None
   \<and> article.url (sanitizeArticle sample_platform news_world old_article) = ''#''
   \<and> ra_publishedAt old_article = Some ''1999-01-01''
   \<and> dateFullYear sample_platform ''1999-01-01'' = Some 1999
   \<and> article.publishedAt (sanitizeArticle sample_platform news_world old_article)
       = toISOString sample_platform (int (now_ms news_world))"
proof -
  have live: "fetchCryptoNews_live sample_platform news_world 5 (Response 200 ''OK'' (Json (Some old_news_body)))
      = Inr \<lparr>news_tool_out.articles =
               [\<lparr>article.title = replicate 200 (CHR ''a''),
                 article.description = ''No description available'',
                 article.url = ''#'',
                 article.publishedAt = ''1699821000000'',
                 article.source = ''Example''\<rparr>],
             news_tool_out.error = None,
             news_tool_out.source = Some ''NewsAPI''\<rparr>"
    by (simp add: fetchCryptoNews_live_def sanitizeArticle_def isValidUrl_def isValidDate_def
        news_defs sample_defs string_defs sample_urlProtocol_def sample_dateFullYear_def
        sample_toISOString_def digitChar_def digitsVal_def List.map_filter_simps)
  have arts: "nb_articles old_news_body = Some [Some old_article]"
    by (simp add: old_news_body_def)
  have t: "ra_title old_article = Some long_title \<and> length long_title > 200"
    by (simp add: old_article_def long_title_def)
  have u: "ra_url old_article = Some ''not-a-url''
           \<and> urlProtocol sample_platform ''not-a-url'' \<notin> {Some ''http:'', Some ''https:''}"
    by (simp add: old_article_def sample_platform_def sample_urlProtocol_def toLowerCase_def lowerChar_def)
  have un: "urlProtocol sample_platform ''not-a-url'' = None"
    by (simp add: sample_platform_def sample_urlProtocol_def toLowerCase_def lowerChar_def)
  have y: "dateFullYear sample_platform ''1999-01-01'' = Some 1999"
    by (simp add: sample_platform_def sample_dateFullYear_def isDigit_def digitsVal_def)
  have p: "ra_publishedAt old_article = Some ''1999-01-01''
           \<and> (dateFullYear sample_platform ''1999-01-01'' = None
               \<or> (\<exists>y. dateFullYear sample_platform ''1999-01-01'' = Some y \<and> y \<le> 2000))"
    by (simp add: old_article_def y)
  note th = news_tool_sanitization [OF live arts, of old_article long_title "''not-a-url''" "''1999-01-01''"]
  have r1: "article.title (sanitizeArticle sample_platform news_world old_article) = take 200 long_title"
    using th t by blast
  have r2: "article.url (sanitizeArticle sample_platform news_world old_article) = ''#''"
    using th u by blast
  have r3: "article.publishedAt (sanitizeArticle sample_platform news_world old_article)
       = toISOString sample_platform (int (now_ms news_world))"
    using th p by blast
  show ?thesis
    by (intro conjI live arts t [THEN conjunct1] t [THEN conjunct2] r1 u [THEN conjunct1] un r2
        p [THEN conjunct1] y r3)
qed

text \<open>
  The claim C8 as stated speaks of every fetched article. The workflow's news stage
  sanitizes nothing: a title of 201 characters, the URL \<open>not-a-url\<close> and the date
  \<open>1999-01-01\<close> come out as they came in.
\<close>

theorem news_tool_sanitization_counterexample:
  "news_out.articles (projr (snd (fetchCryptoNews_execute news_world (Some btc_sentiment))))
      = [\<lparr>article.title = long_title,
          article.description = [],
          article.url = ''not-a-url'',
          article.publishedAt = ''1999-01-01'',
          article.source = ''Example''\<rparr>]
   \<and> length long_title = 201
   \<and> urlProtocol sample_platform ''not-a-url'' = None
   \<and> dateFullYear sample_platform ''1999-01-01'' = Some 1999"
  by (simp add: fetchCryptoNews_execute_def fetchCryptoNews_articles_def news_world_def
      long_title_def btc_sentiment_def sample_defs string_defs
      sample_urlProtocol_def sample_dateFullYear_def digitsVal_def
      price_out.defs sentiment_out.defs)

subsection \<open>The number of articles the news tool returns\<close>

lemma fetchCryptoNews_live_count:
  assumes "fetchCryptoNews_live pf w lm resp = Inr r"
  shows "1 \<le> length (news_tool_out.articles r) \<and> length (news_tool_out.articles r) \<le> nat \<lfloor>lm\<rfloor>
       \<and> news_tool_out.source r = Some ''NewsAPI''"
proof -
  from assms obtain xs where
    a: "news_tool_out.articles r = map (sanitizeArticle pf w) (take (nat \<lfloor>lm\<rfloor>) xs)"
    and n: "news_tool_out.articles r \<noteq> []"
    and s: "news_tool_out.source r = Some ''NewsAPI''"
    by (auto simp add: fetchCryptoNews_live_def Let_def
        split: fetched.splits json.splits option.splits if_splits)
  from a have "length (news_tool_out.articles r) \<le> nat \<lfloor>lm\<rfloor>"
    by simp
  moreover from n have "1 \<le> length (news_tool_out.articles r)"
    by (cases "news_tool_out.articles r") simp_all
  ultimately show ?thesis
    using s by simp
qed

lemma length_baseArticles: "length (baseArticles pf w q) = 6"
  by (simp add: baseArticles_def)

lemma floor_bounds:
  assumes "1 \<le> (x::real)"
  shows "1 \<le> nat \<lfloor>min x 6\<rfloor>" and "real (nat \<lfloor>min x 6\<rfloor>) \<le> x" and "nat \<lfloor>min x 6\<rfloor> \<le> 6"
    and "real (nat \<lfloor>x\<rfloor>) \<le> x"
proof -
  have a: "1 \<le> \<lfloor>min x 6\<rfloor>"
    using assms by (simp add: le_floor_iff)
  then show "1 \<le> nat \<lfloor>min x 6\<rfloor>"
    by linarith
  have "real_of_int \<lfloor>min x 6\<rfloor> \<le> min x 6"
    by (rule of_int_floor_le)
  with a show "real (nat \<lfloor>min x 6\<rfloor>) \<le> x"
    by (simp add: of_nat_nat)
  have "\<lfloor>min x 6\<rfloor> \<le> 6"
    by (simp add: floor_le_iff)
  then show "nat \<lfloor>min x 6\<rfloor> \<le> 6"
    by linarith
  have "0 \<le> \<lfloor>x\<rfloor>"
    using assms by (simp add: le_floor_iff)
  moreover have "real_of_int \<lfloor>x\<rfloor> \<le> x"
    by (rule of_int_floor_le)
  ultimately show "real (nat \<lfloor>x\<rfloor>) \<le> x"
    by (simp add: of_nat_nat)
qed

lemma alternative_templated:
  assumes "q \<noteq> []" and "trim q \<noteq> []" and "1 \<le> lm" and "lm \<le> 20"
  shows "length (news_tool_out.articles (fetchCryptoNewsFromAlternativeSource pf w q lm))
           = nat \<lfloor>min lm 6\<rfloor>
       \<and> news_tool_out.source (fetchCryptoNewsFromAlternativeSource pf w q lm) = Some ''fallback''"
  using assms floor_bounds(3) [of lm]
  by (simp add: fetchCryptoNewsFromAlternativeSource_def Let_def length_baseArticles)

lemma alternative_last_resort:
  assumes "q = [] \<or> trim q = []"
  shows "length (news_tool_out.articles (fetchCryptoNewsFromAlternativeSource pf w q lm)) = 1
       \<and> news_tool_out.source (fetchCryptoNewsFromAlternativeSource pf w q lm) = Some ''error''"
  using assms
  by (auto simp add: fetchCryptoNewsFromAlternativeSource_def)

lemma alternative_count:
  assumes "1 \<le> lm" and "lm \<le> 20"
  shows "1 \<le> length (news_tool_out.articles (fetchCryptoNewsFromAlternativeSource pf w q lm))
       \<and> real (length (news_tool_out.articles (fetchCryptoNewsFromAlternativeSource pf w q lm))) \<le> lm"
proof (cases "q = [] \<or> trim q = []")
  case True
  with alternative_last_resort [OF True, of pf w lm] assms show ?thesis
    by simp
next
  case False
  with alternative_templated [of q lm pf w] assms floor_bounds(1,2) [of lm] show ?thesis
    by simp
qed

lemma withFallback_count:
  assumes "1 \<le> lm" and "lm \<le> 20"
  shows "1 \<le> length (news_tool_out.articles (snd (fetchCryptoNewsWithFallback pf w q lm)))
       \<and> real (length (news_tool_out.articles (snd (fetchCryptoNewsWithFallback pf w q lm)))) \<le> lm"
proof (cases "envKey (NEWSAPI_KEY w)")
  case None
  with alternative_count [OF assms, of pf w q] show ?thesis
    by (simp add: fetchCryptoNewsWithFallback_def)
next
  case (Some k)
  let ?resp = "http_news w (q @ '' cryptocurrency bitcoin ethereum crypto'') lm k"
  show ?thesis
  proof (cases "fetchCryptoNews_live pf w lm ?resp")
    case (Inl e)
    with Some alternative_count [OF assms, of pf w q] show ?thesis
      by (simp add: fetchCryptoNewsWithFallback_def)
  next
    case (Inr r)
    from fetchCryptoNews_live_count [OF Inr]
    have "1 \<le> length (news_tool_out.articles r)"
      and "length (news_tool_out.articles r) \<le> nat \<lfloor>lm\<rfloor>"
      by simp_all
    moreover have "real (nat \<lfloor>lm\<rfloor>) \<le> lm"
      using assms(1) by (rule floor_bounds(4))
    ultimately have "1 \<le> length (news_tool_out.articles r)
        \<and> real (length (news_tool_out.articles r)) \<le> lm"
      by (smt (verit) of_nat_le_iff)
    with Some Inr show ?thesis
      by (simp add: fetchCryptoNewsWithFallback_def)
  qed
qed

lemma clamped_limit_code:
  "max 1 (min 20 (case limit of None \<Rightarrow> 5 | Some l \<Rightarrow> if l = 0 then 5 else l)) = clamped_limit limit"
  by (simp add: clamped_limit_def spec_clamp_def split: option.splits)

lemma clamped_limit_range: "1 \<le> clamped_limit l \<and> clamped_limit l \<le> 20"
  by (simp add: clamped_limit_def spec_clamp_def)

text \<open>
  C10. Whatever the query, the limit and the world, the news tool returns at least one
  article and no more than the clamped limit, which is 5 for an absent limit and the
  limit itself between 1 and 20. A live answer has between 1 and the limit articles; the
  templated fallback has \<open>min limit 6\<close> articles, at least one; the last resort has
  exactly one; and every answer that is not live has at most 6.
\<close>

theorem news_tool_article_count:
  "1 \<le> length (news_tool_out.articles (snd (getCryptoNews_execute pf w query limit)))
   \<and> real (length (news_tool_out.articles (snd (getCryptoNews_execute pf w query limit))))
       \<le> clamped_limit limit
   \<and> (fetchCryptoNews_live pf w lm resp = Inr r \<longrightarrow>
        1 \<le> length (news_tool_out.articles r) \<and> length (news_tool_out.articles r) \<le> nat \<lfloor>lm\<rfloor>)
   \<and> (q \<noteq> [] \<and> trim q \<noteq> [] \<and> 1 \<le> lm \<and> lm \<le> 20 \<longrightarrow>
        length (news_tool_out.articles (fetchCryptoNewsFromAlternativeSource pf w q lm))
          = nat \<lfloor>min lm 6\<rfloor>
      \<and> 1 \<le> nat \<lfloor>min lm 6\<rfloor>)
   \<and> (q = [] \<or> trim q = [] \<longrightarrow>
        length (news_tool_out.articles (fetchCryptoNewsFromAlternativeSource pf w q lm)) = 1)
   \<and> clamped_limit None = 5
   \<and> (1 \<le> l \<and> l \<le> 20 \<longrightarrow> clamped_limit (Some l) = l)
   \<and> (news_tool_out.source (snd (getCryptoNews_execute pf w query limit)) = Some ''NewsAPI''
      \<or> length (news_tool_out.articles (snd (getCryptoNews_execute pf w query limit))) \<le> 6)"
proof (intro conjI impI)
  let ?sq = "case query of None \<Rightarrow> ''cryptocurrency'' | Some q \<Rightarrow> orElse (trim q) ''cryptocurrency''"
  let ?r = "snd (getCryptoNews_execute pf w query limit)"
  have ex: "?r = snd (fetchCryptoNewsWithFallback pf w ?sq (clamped_limit limit))
            \<or> length (news_tool_out.articles ?r) = 1"
    by (simp add: getCryptoNews_execute_def clamped_limit_code Let_def)
  have wf: "1 \<le> length (news_tool_out.articles (snd (fetchCryptoNewsWithFallback pf w ?sq (clamped_limit limit))))
       \<and> real (length (news_tool_out.articles (snd (fetchCryptoNewsWithFallback pf w ?sq (clamped_limit limit)))))
           \<le> clamped_limit limit"
    using clamped_limit_range [of limit] by (intro withFallback_count) simp_all
  show "1 \<le> length (news_tool_out.articles ?r)"
    using ex wf by auto
  show "real (length (news_tool_out.articles ?r)) \<le> clamped_limit limit"
    using ex wf clamped_limit_range [of limit] by auto
  show "news_tool_out.source ?r = Some ''NewsAPI'' \<or> length (news_tool_out.articles ?r) \<le> 6"
  proof -
    have alt: "length (news_tool_out.articles (fetchCryptoNewsFromAlternativeSource pf w ?sq (clamped_limit limit))) \<le> 6"
    proof (cases "?sq = [] \<or> trim ?sq = []")
      case True
      from alternative_last_resort [OF True, of pf w "clamped_limit limit"] show ?thesis by simp
    next
      case False
      with alternative_templated [of ?sq "clamped_limit limit" pf w] clamped_limit_range [of limit]
        floor_bounds(3) [of "clamped_limit limit"]
      show ?thesis by simp
    qed
    have "news_tool_out.source (snd (fetchCryptoNewsWithFallback pf w ?sq (clamped_limit limit))) = Some ''NewsAPI''
         \<or> length (news_tool_out.articles (snd (fetchCryptoNewsWithFallback pf w ?sq (clamped_limit limit)))) \<le> 6"
      using alt
      by (auto simp add: fetchCryptoNewsWithFallback_def
          split: option.splits sum.splits dest: fetchCryptoNews_live_count)
    with ex show ?thesis
      by auto
  qed
  show "clamped_limit None = 5"
    by (simp add: clamped_limit_def spec_clamp_def)
next
  assume "1 \<le> l \<and> l \<le> 20"
  then show "clamped_limit (Some l) = l"
    by (simp add: clamped_limit_def spec_clamp_def)
next
  assume "fetchCryptoNews_live pf w lm resp = Inr r"
  from fetchCryptoNews_live_count [OF this]
  show "1 \<le> length (news_tool_out.articles r)" and "length (news_tool_out.articles r) \<le> nat \<lfloor>lm\<rfloor>"
    by simp_all
next
  assume a: "q \<noteq> [] \<and> trim q \<noteq> [] \<and> 1 \<le> lm \<and> lm \<le> 20"
  then show "length (news_tool_out.articles (fetchCryptoNewsFromAlternativeSource pf w q lm))
          = nat \<lfloor>min lm 6\<rfloor>"
    using alternative_templated [of q lm pf w] by simp
  from a show "1 \<le> nat \<lfloor>min lm 6\<rfloor>"
    using floor_bounds(1) [of lm] by simp
next
  assume "q = [] \<or> trim q = []"
  from alternative_last_resort [OF this]
  show "length (news_tool_out.articles (fetchCryptoNewsFromAlternativeSource pf w q lm)) = 1"
    by simp
qed

theorem news_tool_article_count_witness:
  "''bitcoin'' \<noteq> [] \<and> trim ''bitcoin'' \<noteq> [] \<and> (1::real) \<le> 3 \<and> (3::real) \<le> 20
   \<and> length (news_tool_out.articles
         (fetchCryptoNewsFromAlternativeSource sample_platform offline_world ''bitcoin'' 3)) = 3
   \<and> length (news_tool_out.articles
         (fetchCryptoNewsFromAlternativeSource sample_platform offline_world [] 3)) = 1
   \<and> fetchCryptoNews_live sample_platform news_world 5 (Response 200 ''OK'' (Json (Some old_news_body)))
       = Inr \<lparr>news_tool_out.articles = [sanitizeArticle sample_platform news_world old_article],
              news_tool_out.error = None,
              news_tool_out.source = Some ''NewsAPI''\<rparr>
   \<and> length (news_tool_out.articles
         (snd (getCryptoNews_execute sample_platform offline_world (Some ''bitcoin'') (Some 3)))) = 3
   \<and> clamped_limit (Some 3) = 3"
proof -
  have q: "''bitcoin'' \<noteq> [] \<and> trim ''bitcoin'' \<noteq> [] \<and> (1::real) \<le> 3 \<and> (3::real) \<le> 20"
    by (simp add: trim_def isWhiteSpace_def)
  have e: "([]::string) = [] \<or> trim [] = []"
    by simp
  have live: "fetchCryptoNews_live sample_platform news_world 5 (Response 200 ''OK'' (Json (Some old_news_body)))
       = Inr \<lparr>news_tool_out.articles = [sanitizeArticle sample_platform news_world old_article],
              news_tool_out.error = None,
              news_tool_out.source = Some ''NewsAPI''\<rparr>"
    by (simp add: fetchCryptoNews_live_def old_news_body_def ok_def Let_def List.map_filter_simps)
  have x: "length (news_tool_out.articles
         (snd (getCryptoNews_execute sample_platform offline_world (Some ''bitcoin'') (Some 3)))) = 3"
    by (simp add: getCryptoNews_execute_def fetchCryptoNewsWithFallback_def
        fetchCryptoNewsFromAlternativeSource_def length_baseArticles dangerousPatterns_def
        includesCI_def sample_defs string_defs)
  note th = news_tool_article_count [where pf = sample_platform and w = offline_world
      and q = "''bitcoin''" and lm = 3 and l = 3]
  have a: "length (news_tool_out.articles
         (fetchCryptoNewsFromAlternativeSource sample_platform offline_world ''bitcoin'' 3)) = 3"
    using th q by simp
  have b: "length (news_tool_out.articles
         (fetchCryptoNewsFromAlternativeSource sample_platform offline_world [] 3)) = 1"
    using news_tool_article_count [where pf = sample_platform and w = offline_world
      and q = "[]" and lm = 3] e by blast
  have c: "clamped_limit (Some 3) = 3"
    using th by simp
  show ?thesis
    by (intro conjI q [THEN conjunct1] q [THEN conjunct2, THEN conjunct1]
        q [THEN conjunct2, THEN conjunct2, THEN conjunct1]
        q [THEN conjunct2, THEN conjunct2, THEN conjunct2] a b live x c)
qed

end
